theory Spec2Isabelle
  imports Main
begin

section \<open>JavaScript strings\<close>

text \<open>
  A JavaScript string is a sequence of UTF-16 code units; \<open>length\<close> is the
  \<^verbatim>\<open>.length\<close> of the source. ASCII literals are written \<open>js ''...''\<close>, other
  characters by their code unit (the integral sign U+222B is \<open>8747\<close>).
\<close>

type_synonym jsstring = "nat list"

definition js :: "string \<Rightarrow> jsstring" where
  "js s = map of_char s"

fun in_ranges :: "(nat \<times> nat) list \<Rightarrow> nat \<Rightarrow> bool" where
  "in_ranges [] c = False"
| "in_ranges ((lo, hi) # rs) c = ((lo \<le> c \<and> c \<le> hi) \<or> in_ranges rs c)"

text \<open>The code units of ECMAScript's WhiteSpace and LineTerminator (what \<^verbatim>\<open>trim\<close>
  strips and what \<^verbatim>\<open>\s\<close> matches).\<close>

definition js_whitespace :: "(nat \<times> nat) list" where
  "js_whitespace = [(9, 13), (32, 32), (160, 160), (5760, 5760), (8192, 8202),
     (8232, 8233), (8239, 8239), (8287, 8287), (12288, 12288), (65279, 65279)]"

definition is_space :: "nat \<Rightarrow> bool" where
  "is_space c = in_ranges js_whitespace c"

definition trim :: "jsstring \<Rightarrow> jsstring" where
  "trim s = rev (dropWhile is_space (rev (dropWhile is_space s)))"

fun startsWith :: "jsstring \<Rightarrow> jsstring \<Rightarrow> bool" where
  "startsWith s [] = True"
| "startsWith [] (p # ps) = False"
| "startsWith (c # cs) (p # ps) = (c = p \<and> startsWith cs ps)"

fun str_includes :: "jsstring \<Rightarrow> jsstring \<Rightarrow> bool" where
  "str_includes [] sub = (sub = [])"
| "str_includes (c # cs) sub = (startsWith (c # cs) sub \<or> str_includes cs sub)"

text \<open>\<^verbatim>\<open>s.replace(pat, rep)\<close> with a string pattern: the first occurrence only.\<close>

fun str_replace :: "jsstring \<Rightarrow> jsstring \<Rightarrow> jsstring \<Rightarrow> jsstring" where
  "str_replace [] pat rep = (if pat = [] then rep else [])"
| "str_replace (c # cs) pat rep =
     (if startsWith (c # cs) pat then rep @ drop (length pat) (c # cs)
      else c # str_replace cs pat rep)"

fun join :: "jsstring \<Rightarrow> jsstring list \<Rightarrow> jsstring" where
  "join sep [] = []"
| "join sep [x] = x"
| "join sep (x # y # ys) = x @ sep @ join sep (y # ys)"

section \<open>Regular expressions\<close>

text \<open>
  The regular expressions of the source are transcribed into this syntax and run by a
  backtracking matcher with the priorities of ECMAScript: the alternatives of \<open>Alt\<close> left
  to right, \<open>Star\<close> greedy, an iteration of \<open>Star\<close> that consumes nothing rejected.
  \<open>ms\<close> lists the states a match of \<open>r\<close> can end in, best first; a state is the
  position reached, the rest of the input and the capture groups.
\<close>

datatype regex =
    Eps
  | Lit nat
  | Dot
  | Cls "(nat \<times> nat) list"
  | NCls "(nat \<times> nat) list"
  | Cat regex regex
  | Alt regex regex
  | Star regex
  | Grp nat regex
  | Bol
  | Eol

definition Plus :: "regex \<Rightarrow> regex" where
  "Plus r = Cat r (Star r)"

definition Opt :: "regex \<Rightarrow> regex" where
  "Opt r = Alt r Eps"

fun Seq :: "regex list \<Rightarrow> regex" where
  "Seq [] = Eps"
| "Seq [r] = r"
| "Seq (r # rs) = Cat r (Seq rs)"

definition Str :: "jsstring \<Rightarrow> regex" where
  "Str s = Seq (map Lit s)"

text \<open>The \<^verbatim>\<open>i\<close> flag: the patterns of the source have ASCII letters only, and without the
  \<^verbatim>\<open>u\<close> flag no character outside ASCII is folded onto an ASCII one.\<close>

definition to_upper_ascii :: "nat \<Rightarrow> nat" where
  "to_upper_ascii c = (if 97 \<le> c \<and> c \<le> 122 then c - 32 else c)"

definition to_lower_ascii :: "nat \<Rightarrow> nat" where
  "to_lower_ascii c = (if 65 \<le> c \<and> c \<le> 90 then c + 32 else c)"

definition chr_eq :: "bool \<Rightarrow> nat \<Rightarrow> nat \<Rightarrow> bool" where
  "chr_eq ic a b = (a = b \<or> (ic \<and> to_upper_ascii a = to_upper_ascii b))"

definition cls_mem :: "bool \<Rightarrow> (nat \<times> nat) list \<Rightarrow> nat \<Rightarrow> bool" where
  "cls_mem ic rs c =
     (in_ranges rs c \<or> (ic \<and> (in_ranges rs (to_upper_ascii c) \<or> in_ranges rs (to_lower_ascii c))))"

definition line_terminators :: "(nat \<times> nat) list" where
  "line_terminators = [(10, 10), (13, 13), (8232, 8233)]"

type_synonym captures = "(nat \<times> jsstring) list"
type_synonym mstate = "nat \<times> jsstring \<times> captures"

definition one_char :: "(nat \<Rightarrow> bool) \<Rightarrow> mstate \<Rightarrow> mstate list" where
  "one_char P st =
     (case st of (p, cs, g) \<Rightarrow>
        (case cs of [] \<Rightarrow> [] | x # xs \<Rightarrow> if P x then [(Suc p, xs, g)] else []))"

definition remaining :: "mstate \<Rightarrow> nat" where
  "remaining st = length (fst (snd st))"

definition set_group :: "nat \<Rightarrow> mstate \<Rightarrow> mstate \<Rightarrow> mstate" where
  "set_group n st st' =
     (case st of (p, cs, g) \<Rightarrow> case st' of (p', cs', g') \<Rightarrow>
        (p', cs', (n, take (p' - p) cs) # g'))"

function ms :: "bool \<Rightarrow> regex \<Rightarrow> mstate \<Rightarrow> mstate list" where
  "ms ic Eps st = [st]"
| "ms ic (Lit c) st = one_char (chr_eq ic c) st"
| "ms ic Dot st = one_char (\<lambda>x. \<not> in_ranges line_terminators x) st"
| "ms ic (Cls rs) st = one_char (cls_mem ic rs) st"
| "ms ic (NCls rs) st = one_char (\<lambda>x. \<not> cls_mem ic rs x) st"
| "ms ic (Cat a b) st = concat (map (ms ic b) (ms ic a st))"
| "ms ic (Alt a b) st = ms ic a st @ ms ic b st"
| "ms ic (Star a) st =
     concat (map (\<lambda>st'. if remaining st' < remaining st then ms ic (Star a) st' else [])
                 (ms ic a st)) @ [st]"
| "ms ic (Grp n a) st = map (set_group n st) (ms ic a st)"
| "ms ic Bol st = (if fst st = 0 then [st] else [])"
| "ms ic Eol st = (if fst (snd st) = [] then [st] else [])"
  by pat_completeness auto
termination
  by (relation "measures [\<lambda>(ic, r, st). size r, \<lambda>(ic, r, st). remaining st]") auto

text \<open>The first match at a position: its length and its groups.\<close>

definition match_at :: "bool \<Rightarrow> regex \<Rightarrow> nat \<Rightarrow> jsstring \<Rightarrow> (nat \<times> captures) option" where
  "match_at ic r p cs =
     (case ms ic r (p, cs, []) of [] \<Rightarrow> None | (p', cs', g) # _ \<Rightarrow> Some (p' - p, g))"

fun group :: "captures \<Rightarrow> nat \<Rightarrow> jsstring" where
  "group [] n = []"
| "group ((k, v) # g) n = (if k = n then v else group g n)"

text \<open>\<^verbatim>\<open>re.test(s)\<close>: is there a match at some position, tried left to right.\<close>

fun search :: "bool \<Rightarrow> regex \<Rightarrow> nat \<Rightarrow> jsstring \<Rightarrow> (nat \<times> nat \<times> captures) option" where
  "search ic r p [] = (case match_at ic r p [] of None \<Rightarrow> None | Some (n, g) \<Rightarrow> Some (p, n, g))"
| "search ic r p (c # cs) =
     (case match_at ic r p (c # cs) of
        None \<Rightarrow> search ic r (Suc p) cs
      | Some (n, g) \<Rightarrow> Some (p, n, g))"

definition regex_test :: "bool \<Rightarrow> regex \<Rightarrow> jsstring \<Rightarrow> bool" where
  "regex_test ic r s = (search ic r 0 s \<noteq> None)"

text \<open>\<^verbatim>\<open>s.replace(re, f)\<close> without the \<^verbatim>\<open>g\<close> flag: the leftmost match only. The
  replacement \<open>f\<close> gets the matched text and the groups.\<close>

definition replace_first ::
  "bool \<Rightarrow> regex \<Rightarrow> (jsstring \<Rightarrow> captures \<Rightarrow> jsstring) \<Rightarrow> jsstring \<Rightarrow> jsstring" where
  "replace_first ic r f s =
     (case search ic r 0 s of
        None \<Rightarrow> s
      | Some (p, n, g) \<Rightarrow> take p s @ f (take n (drop p s)) g @ drop (p + n) s)"

text \<open>\<^verbatim>\<open>s.replace(re, f)\<close> with the \<^verbatim>\<open>g\<close> flag: every match, left to right, the search
  resuming behind a match (one code unit further after an empty one).\<close>

function replace_all ::
  "bool \<Rightarrow> regex \<Rightarrow> (jsstring \<Rightarrow> captures \<Rightarrow> jsstring) \<Rightarrow> nat \<Rightarrow> jsstring \<Rightarrow> jsstring" where
  "replace_all ic r f p cs =
     (case match_at ic r p cs of
        None \<Rightarrow> (case cs of [] \<Rightarrow> [] | x # xs \<Rightarrow> x # replace_all ic r f (Suc p) xs)
      | Some (n, g) \<Rightarrow>
          if 0 < n \<and> n \<le> length cs
          then f (take n cs) g @ replace_all ic r f (p + n) (drop n cs)
          else f [] g @ (case cs of [] \<Rightarrow> [] | x # xs \<Rightarrow> x # replace_all ic r f (Suc p) xs))"
  by pat_completeness auto
termination
  by (relation "measure (\<lambda>(ic, r, f, p, cs). length cs)") auto

text \<open>The number of matches \<^verbatim>\<open>(s.match(re) || []).length\<close> of a global regular expression.\<close>

function count_matches :: "bool \<Rightarrow> regex \<Rightarrow> nat \<Rightarrow> jsstring \<Rightarrow> nat" where
  "count_matches ic r p cs =
     (case match_at ic r p cs of
        None \<Rightarrow> (case cs of [] \<Rightarrow> 0 | x # xs \<Rightarrow> count_matches ic r (Suc p) xs)
      | Some (n, g) \<Rightarrow>
          if 0 < n \<and> n \<le> length cs
          then Suc (count_matches ic r (p + n) (drop n cs))
          else Suc (case cs of [] \<Rightarrow> 0 | x # xs \<Rightarrow> count_matches ic r (Suc p) xs))"
  by pat_completeness auto
termination
  by (relation "measure (\<lambda>(ic, r, p, cs). length cs)") auto


section \<open>Format conversion helpers of \<^verbatim>\<open>EquationProcessor\<close>\<close>

fun Alts :: "regex list \<Rightarrow> regex" where
  "Alts [] = Eps"
| "Alts [r] = r"
| "Alts (r # rs) = Alt r (Alts rs)"

text \<open>\<^verbatim>\<open>cleanLatex\<close>: \<^verbatim>\<open>latex.replace(/^\$|\$$/, '').trim()\<close>. The regular expression has
  no \<^verbatim>\<open>g\<close> flag.\<close>

definition dollar_re :: regex where
  "dollar_re = Alt (Cat Bol (Lit 36)) (Cat (Lit 36) Eol)"

definition cleanLatex :: "jsstring \<Rightarrow> jsstring" where
  "cleanLatex latex = trim (replace_first False dollar_re (\<lambda>m g. []) latex)"

definition mathml_ns :: jsstring where
  "mathml_ns = js ''<math xmlns=\"http://www.w3.org/1998/Math/MathML\"''"

text \<open>\<^verbatim>\<open>ensureMathMLNamespace\<close>, on a string argument.\<close>

definition ensureMathMLNamespace :: "jsstring \<Rightarrow> jsstring" where
  "ensureMathMLNamespace mathml =
     (let out = trim mathml in
      if \<not> str_includes out (js ''xmlns='') then
        (if startsWith out (js ''<math'') then str_replace out (js ''<math'') mathml_ns
         else mathml_ns @ js ''>'' @ out @ js ''</math>'')
      else out)"

subsection \<open>\<^verbatim>\<open>cleanMathMLSpacing\<close>\<close>

text \<open>\<^verbatim>\<open>[\u200B-\u200D\uFEFF\u2009\u200A]\<close>\<close>

definition invisible :: "(nat \<times> nat) list" where
  "invisible = [(8203, 8205), (65279, 65279), (8201, 8201), (8202, 8202)]"

text \<open>\<^verbatim>\<open>[ \t\r\n\u200B-\u200D\uFEFF\u2009\u200A]\<close>\<close>

definition spacing :: "(nat \<times> nat) list" where
  "spacing = [(32, 32), (9, 9), (13, 13), (10, 10)] @ invisible"

definition gt :: "(nat \<times> nat) list" where
  "gt = [(62, 62)]"

definition lt :: "(nat \<times> nat) list" where
  "lt = [(60, 60)]"

definition quotes :: "(nat \<times> nat) list" where
  "quotes = [(34, 34), (39, 39)]"

text \<open>\<^verbatim>\<open>/<mspace[^>]*\/?>/gi\<close>\<close>

definition mspace_re :: regex where
  "mspace_re = Seq [Str (js ''<mspace''), Star (NCls gt), Opt (Lit 47), Lit 62]"

text \<open>\<^verbatim>\<open>/<mtext[^>]*>[\s\u200B-\u200D\uFEFF\u2009\u200A]*<\/mtext>/gi\<close>\<close>

definition mtext_re :: regex where
  "mtext_re = Seq [Str (js ''<mtext''), Star (NCls gt), Lit 62,
                   Star (Cls (js_whitespace @ invisible)), Str (js ''</mtext>'')]"

text \<open>\<^verbatim>\<open>/[\u200B-\u200D\uFEFF\u2009\u200A]/g\<close>\<close>

definition invisible_re :: regex where
  "invisible_re = Cls invisible"

text \<open>\<^verbatim>\<open>/<mpadded[^>]*width\s*=\s*["']0[^"']*["'][^>]*>/gi\<close>\<close>

definition mpadded_zero_re :: regex where
  "mpadded_zero_re = Seq [Str (js ''<mpadded''), Star (NCls gt), Str (js ''width''),
     Star (Cls js_whitespace), Lit 61, Star (Cls js_whitespace), Cls quotes, Lit 48,
     Star (NCls quotes), Cls quotes, Star (NCls gt), Lit 62]"

text \<open>\<^verbatim>\<open>/<mpadded[^>]*width\s*=\s*["']([0-9.]+)em["'][^>]*>/gi\<close>\<close>

definition mpadded_em_re :: regex where
  "mpadded_em_re = Seq [Str (js ''<mpadded''), Star (NCls gt), Str (js ''width''),
     Star (Cls js_whitespace), Lit 61, Star (Cls js_whitespace), Cls quotes,
     Grp 1 (Plus (Cls [(48, 57), (46, 46)])), Str (js ''em''), Cls quotes,
     Star (NCls gt), Lit 62]"

text \<open>
  \<^verbatim>\<open>parseFloat(width) < 0.05\<close> on a string of digits and dots. \<^verbatim>\<open>parseFloat\<close> reads the
  longest prefix that is a decimal literal (digits, then optionally a dot and digits, at
  least one digit in all) and gives NaN when there is none; NaN is not below 0.05. The
  prefix is the decimal \<open>n / 10 ^ k\<close>. The double nearest to 0.05 is
  \<open>7205759403792794 / 2 ^ 57\<close> with an even significand, so a decimal rounds to a double below
  it exactly when it lies below the midpoint \<open>(2 * 7205759403792794 - 1) / 2 ^ 58\<close>.
\<close>

definition is_digit :: "nat \<Rightarrow> bool" where
  "is_digit c = (48 \<le> c \<and> c \<le> 57)"

fun digits_value :: "nat \<Rightarrow> jsstring \<Rightarrow> nat" where
  "digits_value acc [] = acc"
| "digits_value acc (d # ds) = digits_value (10 * acc + (d - 48)) ds"

definition parseFloat_decimal :: "jsstring \<Rightarrow> (nat \<times> nat) option" where
  "parseFloat_decimal w =
     (let a = takeWhile is_digit w;
          r = dropWhile is_digit w;
          b = (case r of [] \<Rightarrow> [] | c # cs \<Rightarrow> if c = 46 then takeWhile is_digit cs else [])
      in if a = [] \<and> b = [] then None else Some (digits_value 0 (a @ b), length b))"

definition below_0_05 :: "jsstring \<Rightarrow> bool" where
  "below_0_05 w =
     (case parseFloat_decimal w of
        None \<Rightarrow> False
      | Some (n, k) \<Rightarrow> n * 2 ^ 58 < (2 * 7205759403792794 - 1) * 10 ^ k)"

text \<open>\<^verbatim>\<open>/(<mo[^>]*>)([^<]+)(<\/mo>)/gi\<close>\<close>

definition mo_re :: regex where
  "mo_re = Seq [Grp 1 (Seq [Str (js ''<mo''), Star (NCls gt), Lit 62]),
                Grp 2 (Plus (NCls lt)), Grp 3 (Str (js ''</mo>''))]"

text \<open>\<^verbatim>\<open>/>[ \t\r\n\u200B-\u200D\uFEFF\u2009\u200A]+</g\<close>\<close>

definition between_tags_re :: regex where
  "between_tags_re = Seq [Lit 62, Plus (Cls spacing), Lit 60]"

text \<open>\<^verbatim>\<open>/<\/mo>[ \t\r\n\u200B-\u200D\uFEFF\u2009\u200A]*</g\<close>\<close>

definition after_mo_re :: regex where
  "after_mo_re = Seq [Str (js ''</mo>''), Star (Cls spacing), Lit 60]"

text \<open>\<^verbatim>\<open>/(<\/mo>|<\/mi>|<\/mn>|<\/mfrac>|<\/msup>|<\/msub>|<\/munder>|<\/mover>|<\/mrow>)[ \t\r\n\u200B-\u200D\uFEFF\u2009\u200A]*</g\<close>\<close>

definition after_close_re :: regex where
  "after_close_re = Seq [Grp 1 (Alts [Str (js ''</mo>''), Str (js ''</mi>''), Str (js ''</mn>''),
       Str (js ''</mfrac>''), Str (js ''</msup>''), Str (js ''</msub>''), Str (js ''</munder>''),
       Str (js ''</mover>''), Str (js ''</mrow>'')]), Star (Cls spacing), Lit 60]"

definition clean_mo :: "jsstring \<Rightarrow> captures \<Rightarrow> jsstring" where
  "clean_mo m g =
     (let openTag = group g 1; content = group g 2; closeTag = group g 3;
          trimmed = trim content;
          cleanedContent = replace_all False invisible_re (\<lambda>m g. []) 0 trimmed
      in openTag @ cleanedContent @ closeTag)"

definition cleanMathMLSpacing :: "jsstring \<Rightarrow> jsstring" where
  "cleanMathMLSpacing mathmlString =
     (let cleaned = mathmlString;
          cleaned = replace_all True mspace_re (\<lambda>m g. []) 0 cleaned;
          cleaned = replace_all True mtext_re (\<lambda>m g. []) 0 cleaned;
          cleaned = replace_all False invisible_re (\<lambda>m g. []) 0 cleaned;
          cleaned = replace_all True mpadded_zero_re (\<lambda>m g. []) 0 cleaned;
          cleaned = replace_all True mpadded_em_re
                      (\<lambda>m g. if below_0_05 (group g 1) then [] else m) 0 cleaned;
          cleaned = replace_all True mo_re clean_mo 0 cleaned;
          cleaned = replace_all False between_tags_re (\<lambda>m g. js ''><'') 0 cleaned;
          cleaned = replace_all False after_mo_re (\<lambda>m g. js ''</mo><'') 0 cleaned;
          cleaned = replace_all False after_close_re (\<lambda>m g. group g 1 @ js ''<'') 0 cleaned
      in cleaned)"

section \<open>\<^verbatim>\<open>validateMathML\<close>\<close>

definition validateMathML :: "jsstring \<Rightarrow> bool" where
  "validateMathML mathml =
     (if mathml = [] then False
      else if length mathml = 0 \<or> length mathml > 1000000 then False
      else if \<not> str_includes mathml (js ''<math'') then False
      else
        (let hasNamespace =
               (str_includes mathml (js ''xmlns=\"http://www.w3.org/1998/Math/MathML\"'') \<or>
                str_includes mathml
                  (js ''xmlns='' @ [39] @ js ''http://www.w3.org/1998/Math/MathML'' @ [39]));
             hasClosingTag = str_includes mathml (js ''</math>'');
             openCount = count_matches False (Str (js ''<math'')) 0 mathml;
             closeCount = count_matches False (Str (js ''</math>'')) 0 mathml
         in hasClosingTag \<and> hasNamespace \<and> openCount = closeCount))"


section \<open>The document\<close>

text \<open>
  The page is a tree of text and element nodes. An element has an identity (the object of
  the source), a namespace and a local name; what the source mutates, its attributes and
  the property \<^verbatim>\<open>_katexHtmlElement\<close> that \<^verbatim>\<open>processBatch\<close> stores on a container
  and the number of times \<^verbatim>\<open>setupEquationListeners\<close> has added its handlers, lives in a
  store indexed by the identity. Local names and attribute names are the lower-case
  ones an HTML parser produces.
\<close>

datatype namespace = NsHTML | NsMathML | NsSVG

datatype node = TextNode jsstring | Element nat namespace jsstring "node list"

record elem_obj =
  attributes :: "(jsstring \<times> jsstring) list"
  katexHtmlElement :: "nat option"
  listeners :: nat

record document =
  tree :: node
  objs :: "nat \<Rightarrow> elem_obj"

fun is_element :: "node \<Rightarrow> bool" where
  "is_element (TextNode t) = False"
| "is_element (Element i ns name ch) = True"

fun node_id :: "node \<Rightarrow> nat" where
  "node_id (TextNode t) = 0"
| "node_id (Element i ns name ch) = i"

fun local_name :: "node \<Rightarrow> jsstring" where
  "local_name (TextNode t) = []"
| "local_name (Element i ns name ch) = name"

fun node_ns :: "node \<Rightarrow> namespace" where
  "node_ns (TextNode t) = NsHTML"
| "node_ns (Element i ns name ch) = ns"

fun childNodes :: "node \<Rightarrow> node list" where
  "childNodes (TextNode t) = []"
| "childNodes (Element i ns name ch) = ch"

text \<open>\<^verbatim>\<open>tagName\<close>: upper case for an element of the HTML namespace, the name as it is
  otherwise.\<close>

fun tagName :: "node \<Rightarrow> jsstring" where
  "tagName (TextNode t) = []"
| "tagName (Element i ns name ch) = (if ns = NsHTML then map to_upper_ascii name else name)"

text \<open>The nodes of a subtree in document order, the root first.\<close>

fun nodes :: "node \<Rightarrow> node list" where
  "nodes (TextNode t) = [TextNode t]"
| "nodes (Element i ns name ch) = Element i ns name ch # concat (map nodes ch)"

definition descendants :: "node \<Rightarrow> node list" where
  "descendants n = concat (map nodes (childNodes n))"

definition find_element :: "document \<Rightarrow> nat \<Rightarrow> node option" where
  "find_element doc i = find (\<lambda>n. is_element n \<and> node_id n = i) (nodes (tree doc))"

text \<open>The element \<open>i\<close> and its ancestors, the element first, the root last.\<close>

fun chain :: "nat \<Rightarrow> node \<Rightarrow> node list" where
  "chain i (TextNode t) = []"
| "chain i (Element j ns name ch) =
     (if i = j then [Element j ns name ch]
      else (case filter (\<lambda>p. p \<noteq> []) (map (chain i) ch) of
              [] \<Rightarrow> []
            | p # _ \<Rightarrow> p @ [Element j ns name ch]))"

definition ancestors_or_self :: "document \<Rightarrow> nat \<Rightarrow> node list" where
  "ancestors_or_self doc i = chain i (tree doc)"

definition parentElement :: "document \<Rightarrow> nat \<Rightarrow> nat option" where
  "parentElement doc i =
     (case ancestors_or_self doc i of n # p # _ \<Rightarrow> Some (node_id p) | _ \<Rightarrow> None)"

fun textContent :: "node \<Rightarrow> jsstring" where
  "textContent (TextNode t) = t"
| "textContent (Element i ns name ch) = concat (map textContent ch)"

subsection \<open>Attributes and the class list\<close>

fun lookup :: "(jsstring \<times> jsstring) list \<Rightarrow> jsstring \<Rightarrow> jsstring option" where
  "lookup [] k = None"
| "lookup ((k', v) # al) k = (if k' = k then Some v else lookup al k)"

fun update :: "jsstring \<Rightarrow> jsstring \<Rightarrow> (jsstring \<times> jsstring) list \<Rightarrow> (jsstring \<times> jsstring) list" where
  "update k v [] = [(k, v)]"
| "update k v ((k', v') # al) = (if k' = k then (k, v) # al else (k', v') # update k v al)"

definition getAttribute :: "document \<Rightarrow> nat \<Rightarrow> jsstring \<Rightarrow> jsstring option" where
  "getAttribute doc i name = lookup (attributes (objs doc i)) name"

definition hasAttribute :: "document \<Rightarrow> nat \<Rightarrow> jsstring \<Rightarrow> bool" where
  "hasAttribute doc i name = (getAttribute doc i name \<noteq> None)"

definition setAttribute :: "document \<Rightarrow> nat \<Rightarrow> jsstring \<Rightarrow> jsstring \<Rightarrow> document" where
  "setAttribute doc i name v =
     doc\<lparr>objs := (objs doc)(i := (objs doc i)\<lparr>attributes := update name v (attributes (objs doc i))\<rparr>)\<rparr>"

text \<open>The tokens of a \<^verbatim>\<open>class\<close> attribute: split on ASCII whitespace, no token twice.\<close>

definition is_ascii_ws :: "nat \<Rightarrow> bool" where
  "is_ascii_ws c = (c = 9 \<or> c = 10 \<or> c = 12 \<or> c = 13 \<or> c = 32)"

fun tokens_aux :: "jsstring \<Rightarrow> jsstring \<Rightarrow> jsstring list" where
  "tokens_aux cur [] = (if cur = [] then [] else [cur])"
| "tokens_aux cur (c # cs) =
     (if is_ascii_ws c then (if cur = [] then tokens_aux [] cs else cur # tokens_aux [] cs)
      else tokens_aux (cur @ [c]) cs)"

fun ordered_set :: "jsstring list \<Rightarrow> jsstring list \<Rightarrow> jsstring list" where
  "ordered_set seen [] = []"
| "ordered_set seen (t # ts) =
     (if t \<in> set seen then ordered_set seen ts else t # ordered_set (t # seen) ts)"

definition tokens :: "jsstring \<Rightarrow> jsstring list" where
  "tokens v = ordered_set [] (tokens_aux [] v)"

definition classList :: "document \<Rightarrow> nat \<Rightarrow> jsstring list" where
  "classList doc i = (case getAttribute doc i (js ''class'') of None \<Rightarrow> [] | Some v \<Rightarrow> tokens v)"

definition classList_contains :: "document \<Rightarrow> nat \<Rightarrow> jsstring \<Rightarrow> bool" where
  "classList_contains doc i c = (c \<in> set (classList doc i))"

text \<open>\<^verbatim>\<open>classList.add\<close> and \<^verbatim>\<open>classList.remove\<close> write the token set back to the
  attribute, the tokens joined by one space.\<close>

definition classList_add :: "document \<Rightarrow> nat \<Rightarrow> jsstring \<Rightarrow> document" where
  "classList_add doc i c =
     (let ts = classList doc i;
          ts' = (if c \<in> set ts then ts else ts @ [c])
      in setAttribute doc i (js ''class'') (join (js '' '') ts'))"

definition classList_remove :: "document \<Rightarrow> nat \<Rightarrow> jsstring \<Rightarrow> document" where
  "classList_remove doc i c =
     (let ts' = filter (\<lambda>t. t \<noteq> c) (classList doc i)
      in if \<not> hasAttribute doc i (js ''class'') \<and> ts' = [] then doc
         else setAttribute doc i (js ''class'') (join (js '' '') ts'))"

subsection \<open>Selectors\<close>

text \<open>
  The selectors of the source: a compound selector is a list of simple ones, a complex
  selector a list of compounds joined by the descendant combinator (the subject last), a
  selector list the alternatives separated by commas.
\<close>

datatype simple_selector =
    Tag jsstring
  | Class jsstring
  | HasAttr jsstring
  | AttrEq jsstring jsstring
  | NotHasAttr jsstring

type_synonym compound = "simple_selector list"
type_synonym complex = "compound list"
type_synonym selector = "complex list"

fun matches_simple :: "document \<Rightarrow> node \<Rightarrow> simple_selector \<Rightarrow> bool" where
  "matches_simple doc n (Tag t) = (is_element n \<and> local_name n = t)"
| "matches_simple doc n (Class c) = classList_contains doc (node_id n) c"
| "matches_simple doc n (HasAttr a) = hasAttribute doc (node_id n) a"
| "matches_simple doc n (AttrEq a v) = (getAttribute doc (node_id n) a = Some v)"
| "matches_simple doc n (NotHasAttr a) = (\<not> hasAttribute doc (node_id n) a)"

definition matches_compound :: "document \<Rightarrow> node \<Rightarrow> compound \<Rightarrow> bool" where
  "matches_compound doc n c = list_all (matches_simple doc n) c"

text \<open>\<open>exists_above doc cs ns\<close>: the compounds \<open>cs\<close> (the innermost first) are matched, in
  this order, by some of the nodes \<open>ns\<close> (the innermost first).\<close>

fun exists_above :: "document \<Rightarrow> compound list \<Rightarrow> node list \<Rightarrow> bool" where
  "exists_above doc [] ns = True"
| "exists_above doc (c # cs) [] = False"
| "exists_above doc (c # cs) (n # ns) =
     ((matches_compound doc n c \<and> exists_above doc cs ns) \<or> exists_above doc (c # cs) ns)"

text \<open>Does the first node of a chain (an element with its ancestors) match?\<close>

definition matches_complex :: "document \<Rightarrow> node list \<Rightarrow> complex \<Rightarrow> bool" where
  "matches_complex doc ch cx =
     (case (rev cx, ch) of
        (c # cs, n # ns) \<Rightarrow> matches_compound doc n c \<and> exists_above doc cs ns
      | _ \<Rightarrow> False)"

definition matches :: "document \<Rightarrow> selector \<Rightarrow> node list \<Rightarrow> bool" where
  "matches doc sel ch = list_ex (matches_complex doc ch) sel"

fun closest_in :: "document \<Rightarrow> selector \<Rightarrow> node list \<Rightarrow> nat option" where
  "closest_in doc sel [] = None"
| "closest_in doc sel (n # ns) =
     (if matches doc sel (n # ns) then Some (node_id n) else closest_in doc sel ns)"

definition closest :: "document \<Rightarrow> nat \<Rightarrow> selector \<Rightarrow> nat option" where
  "closest doc i sel = closest_in doc sel (ancestors_or_self doc i)"

definition select_from :: "document \<Rightarrow> selector \<Rightarrow> node list \<Rightarrow> nat list" where
  "select_from doc sel ns =
     map node_id (filter (\<lambda>n. is_element n \<and> matches doc sel (ancestors_or_self doc (node_id n))) ns)"

text \<open>\<^verbatim>\<open>element.querySelectorAll\<close>, \<^verbatim>\<open>element.querySelector\<close> and
  \<^verbatim>\<open>document.querySelectorAll\<close>.\<close>

definition querySelectorAll :: "document \<Rightarrow> nat \<Rightarrow> selector \<Rightarrow> nat list" where
  "querySelectorAll doc i sel =
     (case find_element doc i of None \<Rightarrow> [] | Some n \<Rightarrow> select_from doc sel (descendants n))"

definition querySelector :: "document \<Rightarrow> nat \<Rightarrow> selector \<Rightarrow> nat option" where
  "querySelector doc i sel = (case querySelectorAll doc i sel of [] \<Rightarrow> None | x # _ \<Rightarrow> Some x)"

definition document_querySelectorAll :: "document \<Rightarrow> selector \<Rightarrow> nat list" where
  "document_querySelectorAll doc sel = select_from doc sel (nodes (tree doc))"

definition sel_class :: "string \<Rightarrow> selector" where
  "sel_class c = [[[Class (js c)]]]"

definition sel_tag :: "string \<Rightarrow> selector" where
  "sel_tag t = [[[Tag (js t)]]]"

definition sel_attr :: "string \<Rightarrow> selector" where
  "sel_attr a = [[[HasAttr (js a)]]]"

subsection \<open>Serialisation\<close>

text \<open>
  \<^verbatim>\<open>outerHTML\<close> and \<^verbatim>\<open>innerHTML\<close> follow the fragment serialisation algorithm of the HTML
  standard for element and text nodes: attributes in their order, text escaped except
  below the raw text elements, no end tag and no content for a void element.
\<close>

fun escape_chars :: "bool \<Rightarrow> jsstring \<Rightarrow> jsstring" where
  "escape_chars attr [] = []"
| "escape_chars attr (c # cs) =
     (if c = 38 then js ''&amp;''
      else if c = 160 then js ''&nbsp;''
      else if c = 60 then js ''&lt;''
      else if c = 62 then js ''&gt;''
      else if attr \<and> c = 34 then js ''&quot;''
      else [c]) @ escape_chars attr cs"

definition void_elements :: "jsstring list" where
  "void_elements = map js [''area'', ''base'', ''basefont'', ''bgsound'', ''br'', ''col'',
     ''embed'', ''frame'', ''hr'', ''img'', ''input'', ''keygen'', ''link'', ''meta'', ''param'',
     ''source'', ''track'', ''wbr'']"

definition raw_text_elements :: "jsstring list" where
  "raw_text_elements = map js [''style'', ''script'', ''xmp'', ''iframe'', ''noembed'',
     ''noframes'', ''plaintext'']"

definition serialize_attributes :: "(jsstring \<times> jsstring) list \<Rightarrow> jsstring" where
  "serialize_attributes al =
     concat (map (\<lambda>(k, v). js '' '' @ k @ js ''=\"'' @ escape_chars True v @ js ''\"'') al)"

fun serialize :: "document \<Rightarrow> bool \<Rightarrow> node \<Rightarrow> jsstring" where
  "serialize doc raw (TextNode t) = (if raw then t else escape_chars False t)"
| "serialize doc raw (Element i ns name ch) =
     js ''<'' @ name @ serialize_attributes (attributes (objs doc i)) @ js ''>'' @
     (if ns = NsHTML \<and> name \<in> set void_elements then []
      else concat (map (serialize doc (ns = NsHTML \<and> name \<in> set raw_text_elements)) ch) @
           js ''</'' @ name @ js ''>'')"

definition outerHTML :: "document \<Rightarrow> nat \<Rightarrow> jsstring" where
  "outerHTML doc i = (case find_element doc i of None \<Rightarrow> [] | Some n \<Rightarrow> serialize doc False n)"

definition innerHTML :: "document \<Rightarrow> nat \<Rightarrow> jsstring" where
  "innerHTML doc i =
     (case find_element doc i of
        None \<Rightarrow> []
      | Some n \<Rightarrow>
          concat (map (serialize doc (node_ns n = NsHTML \<and> local_name n \<in> set raw_text_elements))
                      (childNodes n)))"


section \<open>Extraction: \<^verbatim>\<open>EquationProcessor\<close>\<close>

text \<open>A value that is a string or \<^verbatim>\<open>null\<close>; \<^verbatim>\<open>null\<close> and the empty string are falsy.\<close>

definition truthy :: "jsstring option \<Rightarrow> bool" where
  "truthy v = (case v of None \<Rightarrow> False | Some s \<Rightarrow> s \<noteq> [])"

text \<open>\<^verbatim>\<open>a || b\<close>\<close>

definition or_else :: "jsstring option \<Rightarrow> jsstring option \<Rightarrow> jsstring option" where
  "or_else a b = (if truthy a then a else b)"

subsection \<open>Text extraction\<close>

definition superscript_map :: "(nat \<times> nat) list" where
  "superscript_map = [(48, 8304), (49, 185), (50, 178), (51, 179), (52, 8308), (53, 8309),
     (54, 8310), (55, 8311), (56, 8312), (57, 8313), (43, 8314), (45, 8315),
     (61, 8316), (40, 8317), (41, 8318), (110, 8319), (105, 8305)]"

definition subscript_map :: "(nat \<times> nat) list" where
  "subscript_map = [(48, 8320), (49, 8321), (50, 8322), (51, 8323), (52, 8324), (53, 8325),
     (54, 8326), (55, 8327), (56, 8328), (57, 8329), (43, 8330), (45, 8331),
     (61, 8332), (40, 8333), (41, 8334)]"

definition map_char :: "(nat \<times> nat) list \<Rightarrow> nat \<Rightarrow> nat" where
  "map_char m c = (case map_of m c of None \<Rightarrow> c | Some d \<Rightarrow> d)"

definition toSuperscript :: "jsstring \<Rightarrow> jsstring" where
  "toSuperscript text = map (map_char superscript_map) text"

definition toSubscript :: "jsstring \<Rightarrow> jsstring" where
  "toSubscript text = map (map_char subscript_map) text"

text \<open>One step of the tree walker of \<^verbatim>\<open>extractTextContent\<close>: what a node adds to the
  text.\<close>

definition walker_text :: "node \<Rightarrow> jsstring" where
  "walker_text n =
     (if \<not> is_element n then textContent n
      else (let nodeName = map to_lower_ascii (tagName n) in
            if nodeName = js ''sup'' then toSuperscript (textContent n)
            else if nodeName = js ''sub'' then toSubscript (textContent n)
            else []))"

definition extractTextContent :: "document \<Rightarrow> nat option \<Rightarrow> jsstring option" where
  "extractTextContent doc element =
     (case element of
        None \<Rightarrow> None
      | Some e \<Rightarrow>
          (case find_element doc e of
             None \<Rightarrow> None
           | Some n \<Rightarrow> Some (trim (concat (map walker_text (descendants n))))))"

definition convertToUnicode :: "document \<Rightarrow> nat \<Rightarrow> jsstring option" where
  "convertToUnicode doc element = extractTextContent doc (Some element)"

text \<open>\<^verbatim>\<open>/[+\-*/=<>...]/\<close>: the operators, relations and Greek letters of \<^verbatim>\<open>extractGeneric\<close>.\<close>

definition mathPattern :: regex where
  "mathPattern = Cls (map (\<lambda>c. (c, c)) [43, 45, 42, 47, 61, 60, 62, 8804, 8805, 8776, 8747, 8721,
     8719, 8730, 8706, 8710, 8711, 8734, 177, 215, 247, 8712, 8713, 8834, 8835, 8746, 8745,
     8704, 8707, 945, 946, 947, 948, 949, 950, 951, 952, 953, 954, 955, 956, 957, 958, 959,
     960, 961, 963, 964, 965, 966, 967, 968, 969])"

definition extractGeneric :: "document \<Rightarrow> nat \<Rightarrow> jsstring option" where
  "extractGeneric doc element =
     (let text = (case find_element doc element of None \<Rightarrow> [] | Some n \<Rightarrow> textContent n)
      in if regex_test False mathPattern text then Some text else None)"

subsection \<open>\<^verbatim>\<open>convertLatexToMathML\<close>\<close>

text \<open>\<^verbatim>\<open>/\\frac\{([^}]+)\}\{([^}]+)\}/g\<close>\<close>

definition frac_re :: regex where
  "frac_re = Seq [Str ([92] @ js ''frac{''), Grp 1 (Plus (NCls [(125, 125)])), Str (js ''}{''),
                  Grp 2 (Plus (NCls [(125, 125)])), Lit 125]"

text \<open>\<^verbatim>\<open>/\\sqrt\{([^}]+)\}/g\<close>\<close>

definition sqrt_re :: regex where
  "sqrt_re = Seq [Str ([92] @ js ''sqrt{''), Grp 1 (Plus (NCls [(125, 125)])), Lit 125]"

text \<open>The named symbols, in the order of the source: the command, the element and the
  character it becomes.\<close>

definition latex_symbols :: "(jsstring \<times> jsstring \<times> nat) list" where
  "latex_symbols = [(js ''sum'', js ''mo'', 8721), (js ''int'', js ''mo'', 8747),
     (js ''infty'', js ''mo'', 8734), (js ''alpha'', js ''mi'', 945), (js ''beta'', js ''mi'', 946),
     (js ''gamma'', js ''mi'', 947), (js ''pi'', js ''mi'', 960), (js ''theta'', js ''mi'', 952),
     (js ''lambda'', js ''mi'', 955), (js ''mu'', js ''mi'', 956), (js ''sigma'', js ''mi'', 963),
     (js ''phi'', js ''mi'', 966), (js ''omega'', js ''mi'', 969)]"

definition replace_symbol :: "jsstring \<Rightarrow> jsstring \<times> jsstring \<times> nat \<Rightarrow> jsstring" where
  "replace_symbol mathml entry =
     (case entry of (name, el, c) \<Rightarrow>
        replace_all False (Str ([92] @ name))
          (\<lambda>m g. js ''<'' @ el @ js ''>'' @ [c] @ js ''</'' @ el @ js ''>'') 0 mathml)"

definition convertLatexToMathML :: "jsstring \<Rightarrow> jsstring" where
  "convertLatexToMathML latex =
     (let mathml = latex;
          mathml = replace_all False frac_re
             (\<lambda>m g. js ''<mfrac><mrow>'' @ group g 1 @ js ''</mrow><mrow>'' @ group g 2 @
                    js ''</mrow></mfrac>'') 0 mathml;
          mathml = replace_all False sqrt_re
             (\<lambda>m g. js ''<msqrt><mrow>'' @ group g 1 @ js ''</mrow></msqrt>'') 0 mathml;
          mathml = foldl replace_symbol mathml latex_symbols;
          mathml = (if \<not> str_includes mathml (js ''<math'')
                    then mathml_ns @ js ''><mrow>'' @ mathml @ js ''</mrow></math>''
                    else mathml)
      in ensureMathMLNamespace mathml)"

subsection \<open>The MathJax interface\<close>

text \<open>
  \<^verbatim>\<open>window.MathJax\<close> belongs to the page. Version 3 is recognised by \<^verbatim>\<open>startup\<close>; its
  \<^verbatim>\<open>startup.document\<close>, when there is one, gives for an element the \<^verbatim>\<open>math\<close> property of
  the math items within it. Version 2 is recognised by \<^verbatim>\<open>Hub\<close>; its \<^verbatim>\<open>getAllJax\<close>, when
  there is one, lists the processed items.
\<close>

record jax =
  SourceElement :: "nat option"
  originalText :: "jsstring option"
  inputID :: "jsstring option"

datatype mathjax =
    NoMathJax
  | MathJaxV3 "(nat \<Rightarrow> jsstring option list) option"
  | MathJaxV2 "jax list option"
  | MathJaxOther

definition first_truthy :: "jsstring option list \<Rightarrow> jsstring option" where
  "first_truthy vs = (case filter truthy vs of [] \<Rightarrow> None | v # _ \<Rightarrow> v)"

definition proper_ancestors :: "document \<Rightarrow> nat \<Rightarrow> nat list" where
  "proper_ancestors doc i = map node_id (tl (ancestors_or_self doc i))"

definition getMathJaxV3Source ::
  "(nat \<Rightarrow> jsstring option list) option \<Rightarrow> document \<Rightarrow> nat \<Rightarrow> jsstring option" where
  "getMathJaxV3Source mjdoc doc element =
     (let altText = or_else (getAttribute doc element (js ''data-mjx-alt''))
                            (getAttribute doc element (js ''data-mjx-latex''));
          item = (case mjdoc of
                    None \<Rightarrow> None
                  | Some getMathItemsWithin \<Rightarrow>
                      (case getMathItemsWithin element of [] \<Rightarrow> None | mathItem # _ \<Rightarrow> mathItem))
      in if truthy altText then altText
         else if truthy item then item
         else first_truthy
                (map (\<lambda>parent. or_else (getAttribute doc parent (js ''data-mjx-alt''))
                                        (getAttribute doc parent (js ''data-mjx-latex'')))
                     (take 3 (proper_ancestors doc element))))"

definition contains :: "document \<Rightarrow> nat \<Rightarrow> nat \<Rightarrow> bool" where
  "contains doc a b = (a \<in> set (map node_id (ancestors_or_self doc b)))"

definition getElementById :: "document \<Rightarrow> jsstring \<Rightarrow> nat option" where
  "getElementById doc v =
     (case document_querySelectorAll doc [[[AttrEq (js ''id'') v]]] of [] \<Rightarrow> None | x # _ \<Rightarrow> Some x)"

text \<open>The loop over \<^verbatim>\<open>allJax\<close>: the first item that returns ends the function, also with
  an empty text; \<open>None\<close> is the loop running to its end.\<close>

fun jax_source :: "document \<Rightarrow> nat \<Rightarrow> jax list \<Rightarrow> jsstring option option" where
  "jax_source doc element [] = None"
| "jax_source doc element (j # rest) =
     (case SourceElement j of
        None \<Rightarrow> jax_source doc element rest
      | Some sourceElement \<Rightarrow>
          if sourceElement = element \<or> contains doc sourceElement element \<or>
             contains doc element sourceElement
          then (if truthy (originalText j) then Some (originalText j)
                else (case (if truthy (inputID j) then getElementById doc (the (inputID j)) else None) of
                        Some inputElement \<Rightarrow>
                          Some (case find_element doc inputElement of
                                  None \<Rightarrow> None | Some n \<Rightarrow> Some (textContent n))
                      | None \<Rightarrow> jax_source doc element rest))
          else jax_source doc element rest)"

definition script_selector :: selector where
  "script_selector = [[[Tag (js ''script''), AttrEq (js ''type'') (js ''math/tex'')]],
                      [[Tag (js ''script''), AttrEq (js ''type'') (js ''math/tex; mode=display'')]]]"

fun script_or_attribute :: "document \<Rightarrow> nat list \<Rightarrow> jsstring option" where
  "script_or_attribute doc [] = None"
| "script_or_attribute doc (parent # ps) =
     (case querySelector doc parent script_selector of
        Some script \<Rightarrow>
          (case find_element doc script of None \<Rightarrow> None | Some n \<Rightarrow> Some (textContent n))
      | None \<Rightarrow>
          (let originalText = or_else (getAttribute doc parent (js ''data-original-text''))
                               (or_else (getAttribute doc parent (js ''data-latex''))
                                        (getAttribute doc parent (js ''data-tex'')))
           in if truthy originalText then originalText else script_or_attribute doc ps))"

definition getMathJaxV2Source :: "jax list option \<Rightarrow> document \<Rightarrow> nat \<Rightarrow> jsstring option" where
  "getMathJaxV2Source getAllJax doc element =
     (case (case getAllJax of None \<Rightarrow> None | Some allJax \<Rightarrow> jax_source doc element allJax) of
        Some r \<Rightarrow> r
      | None \<Rightarrow> script_or_attribute doc (take 5 (map node_id (ancestors_or_self doc element))))"

definition getMathJaxOriginalSource :: "mathjax \<Rightarrow> document \<Rightarrow> nat \<Rightarrow> jsstring option" where
  "getMathJaxOriginalSource mj doc element =
     (case mj of
        MathJaxV3 d \<Rightarrow> getMathJaxV3Source d doc element
      | MathJaxV2 h \<Rightarrow> getMathJaxV2Source h doc element
      | _ \<Rightarrow> None)"


subsection \<open>The extractors\<close>

definition opt_or :: "nat option \<Rightarrow> nat option \<Rightarrow> nat option" where
  "opt_or a b = (case a of None \<Rightarrow> b | Some x \<Rightarrow> Some x)"

definition tagName_of :: "document \<Rightarrow> nat \<Rightarrow> jsstring" where
  "tagName_of doc i = (case find_element doc i of None \<Rightarrow> [] | Some n \<Rightarrow> tagName n)"

definition textContent_of :: "document \<Rightarrow> nat \<Rightarrow> jsstring" where
  "textContent_of doc i = (case find_element doc i of None \<Rightarrow> [] | Some n \<Rightarrow> textContent n)"

text \<open>The \<^verbatim>\<open>mathml\<close> case shared by the KaTeX, MathJax and MathML extractors: the
  serialised element, its spacing cleaned, the namespace added when no \<^verbatim>\<open>xmlns=\<close> occurs.\<close>

definition mathml_of_element :: "document \<Rightarrow> nat \<Rightarrow> jsstring" where
  "mathml_of_element doc mathml =
     (let mathmlString = outerHTML doc mathml;
          mathmlString = cleanMathMLSpacing mathmlString
      in if \<not> str_includes mathmlString (js ''xmlns='')
         then str_replace mathmlString (js ''<math'') mathml_ns
         else mathmlString)"

definition extractFromKaTeX :: "document \<Rightarrow> nat \<Rightarrow> jsstring \<Rightarrow> jsstring option" where
  "extractFromKaTeX doc container format =
     (if \<not> classList_contains doc container (js ''katex'') then None
      else if format = js ''latex'' then
        (let annotationText =
               (case querySelector doc container (sel_tag ''annotation'') of
                  None \<Rightarrow> None
                | Some annotation \<Rightarrow>
                    or_else (Some (innerHTML doc annotation)) (Some (textContent_of doc annotation)));
             latex = or_else (getAttribute doc container (js ''data-latex''))
                       (or_else (getAttribute doc container (js ''data-tex''))
                                (getAttribute doc container (js ''data-original'')))
         in if truthy annotationText \<and> trim (the annotationText) \<noteq> []
            then Some (cleanLatex (the annotationText))
            else if truthy latex \<and> trim (the latex) \<noteq> [] then Some (cleanLatex (the latex))
            else None)
      else if format = js ''mathml'' then
        (let katexMathml = querySelector doc container (sel_class ''katex-mathml'');
             mathml = (case katexMathml of
                         None \<Rightarrow> None
                       | Some k \<Rightarrow> querySelector doc k (sel_tag ''math''));
             mathml = opt_or mathml (querySelector doc container (sel_tag ''math''))
         in case mathml of None \<Rightarrow> None | Some m \<Rightarrow> Some (mathml_of_element doc m))
      else
        (let htmlElement = opt_or (katexHtmlElement (objs doc container))
                                  (querySelector doc container (sel_class ''katex-html''))
         in case htmlElement of None \<Rightarrow> None | Some h \<Rightarrow> extractTextContent doc (Some h)))"

definition mathjax_container :: "document \<Rightarrow> nat \<Rightarrow> nat option" where
  "mathjax_container doc element =
     opt_or (closest doc element (sel_class ''MathJax''))
       (opt_or (closest doc element (sel_class ''mjx-chtml''))
               (closest doc element (sel_class ''mjx-container'')))"

definition descendant_sel :: "simple_selector \<Rightarrow> simple_selector \<Rightarrow> selector" where
  "descendant_sel a b = [[[a], [b]]]"

definition extractFromMathJax :: "mathjax \<Rightarrow> document \<Rightarrow> nat \<Rightarrow> jsstring \<Rightarrow> jsstring option" where
  "extractFromMathJax mj doc element format =
     (case mathjax_container doc element of
        None \<Rightarrow> None
      | Some container \<Rightarrow>
         (let originalLatex = getMathJaxOriginalSource mj doc container in
          if format = js ''latex'' then
            (if truthy originalLatex then Some (cleanLatex (the originalLatex))
             else
               (let latex = or_else (getAttribute doc container (js ''data-latex''))
                             (or_else (getAttribute doc container (js ''data-tex''))
                             (or_else (getAttribute doc container (js ''data-original''))
                             (or_else (getAttribute doc container (js ''data-mjx-latex''))
                                      (getAttribute doc container (js ''data-original-text'')))))
                in if truthy latex then Some (cleanLatex (the latex))
                   else extractTextContent doc (Some container)))
          else if format = js ''mathml'' then
            (let mathml = querySelector doc container (sel_tag ''math'');
                 mathml = opt_or mathml
                   (opt_or (querySelector doc container (descendant_sel (Tag (js ''mjx-chtml'')) (Tag (js ''math''))))
                   (opt_or (querySelector doc container (descendant_sel (Class (js ''mjx-chtml'')) (Tag (js ''math''))))
                           (querySelector doc container (descendant_sel (Tag (js ''mjx-container'')) (Tag (js ''math''))))));
                 mathml = opt_or mathml
                   (opt_or (querySelector doc container (descendant_sel (Class (js ''MathJax_SVG'')) (Tag (js ''math''))))
                   (opt_or (querySelector doc container (descendant_sel (Class (js ''MathJax_Display'')) (Tag (js ''math''))))
                           (querySelector doc container (descendant_sel (Tag (js ''svg'')) (Tag (js ''math''))))));
                 mathml = opt_or mathml
                   (case querySelectorAll doc container (sel_tag ''math'') of [] \<Rightarrow> None | m # _ \<Rightarrow> Some m)
             in case mathml of
                  None \<Rightarrow>
                    (if truthy originalLatex then
                       (let converted = convertLatexToMathML (the originalLatex) in
                        if converted \<noteq> []
                        then Some (ensureMathMLNamespace (cleanMathMLSpacing converted))
                        else None)
                     else None)
                | Some m \<Rightarrow> Some (mathml_of_element doc m))
          else extractTextContent doc (Some container)))"

definition math_element :: "document \<Rightarrow> nat \<Rightarrow> nat option" where
  "math_element doc element =
     (if tagName_of doc element = js ''MATH'' then Some element
      else closest doc element (sel_tag ''math''))"

definition extractFromMathML :: "document \<Rightarrow> nat \<Rightarrow> jsstring \<Rightarrow> jsstring option" where
  "extractFromMathML doc element format =
     (case math_element doc element of
        None \<Rightarrow> None
      | Some mathElement \<Rightarrow>
          if format = js ''mathml'' then Some (mathml_of_element doc mathElement)
          else extractTextContent doc (Some mathElement))"

text \<open>\<^verbatim>\<open>/\\[a-zA-Z]+|\$.*\$/\<close>\<close>

definition looks_like_latex :: regex where
  "looks_like_latex = Alt (Cat (Lit 92) (Plus (Cls [(97, 122), (65, 90)])))
                          (Seq [Lit 36, Star Dot, Lit 36])"

definition extractFromDataAttribute :: "document \<Rightarrow> nat \<Rightarrow> jsstring \<Rightarrow> jsstring option" where
  "extractFromDataAttribute doc element format =
     (let dataMath = or_else (getAttribute doc element (js ''data-math''))
                       (case closest doc element (sel_attr ''data-math'') of
                          None \<Rightarrow> None
                        | Some c \<Rightarrow> getAttribute doc c (js ''data-math''))
      in if \<not> truthy dataMath then None
         else if format = js ''latex'' then Some (cleanLatex (the dataMath))
         else if format = js ''mathml'' then
           (if regex_test False looks_like_latex (the dataMath) then
              (let mathml = convertLatexToMathML (the dataMath)
               in Some (if mathml \<noteq> [] then cleanMathMLSpacing mathml else mathml))
            else if startsWith (trim (the dataMath)) (js ''<math'') then
              Some (cleanMathMLSpacing (ensureMathMLNamespace (trim (the dataMath))))
            else None)
         else dataMath)"

subsection \<open>\<^verbatim>\<open>getEquationContent\<close>\<close>

datatype error_code =
    INVALID_ELEMENT
  | CONTENT_TOO_LARGE
  | INVALID_CLIPBOARD_CONTENT
  | CLIPBOARD_API_UNAVAILABLE
  | EXEC_COMMAND_FAILED
  | CLIPBOARD_COPY_FAILED

datatype severity = MEDIUM | HIGH

datatype extension_error = ExtensionError error_code severity

definition validFormats :: "jsstring list" where
  "validFormats = [js ''mathml'', js ''latex'', js ''unicode'', js ''asciimath'']"

definition defaultFormat :: jsstring where
  "defaultFormat = js ''mathml''"

text \<open>The part of the module state that the modelled functions read or write.
  \<open>selectedEquations\<close> is a \<^verbatim>\<open>Set\<close>: its elements in insertion order, none twice.\<close>

record state =
  selectedEquations :: "nat list"
  currentFormat :: jsstring
  processedElements :: "nat set"
  clipboardHistory :: "(jsstring \<times> jsstring) list"
  errorCount :: nat
  maxErrors :: nat

definition initial_state :: state where
  "initial_state = \<lparr>selectedEquations = [], currentFormat = js ''mathml'', processedElements = {},
     clipboardHistory = [], errorCount = 0, maxErrors = 10\<rparr>"

text \<open>The content found for an element before it is validated: the extractor of the first
  renderer that applies, then the two fallbacks.\<close>

definition extracted_content :: "mathjax \<Rightarrow> document \<Rightarrow> nat \<Rightarrow> jsstring \<Rightarrow> jsstring option" where
  "extracted_content mj doc equation format =
     (let katexContainer =
            (if classList_contains doc equation (js ''katex'') then Some equation
             else opt_or (closest doc equation [[[Class (js ''katex''), HasAttr (js ''data-katex-processed'')]]])
                         (closest doc equation (sel_class ''katex'')));
          content =
            (case katexContainer of
               Some k \<Rightarrow> extractFromKaTeX doc k format
             | None \<Rightarrow>
                 if closest doc equation (sel_class ''MathJax'') \<noteq> None \<or>
                    closest doc equation (sel_class ''mjx-chtml'') \<noteq> None \<or>
                    closest doc equation (sel_class ''mjx-container'') \<noteq> None
                 then extractFromMathJax mj doc equation format
                 else if closest doc equation (sel_tag ''math'') \<noteq> None \<or>
                         tagName_of doc equation = js ''MATH''
                 then extractFromMathML doc equation format
                 else if closest doc equation (sel_attr ''data-math'') \<noteq> None \<or>
                         hasAttribute doc equation (js ''data-math'')
                 then extractFromDataAttribute doc equation format
                 else extractGeneric doc equation);
          content = (if \<not> truthy content then convertToUnicode doc equation else content);
          content =
            (if \<not> truthy content \<and> format = js ''mathml'' then
               (case opt_or (querySelector doc equation (sel_tag ''math''))
                            (closest doc equation (sel_tag ''math'')) of
                  None \<Rightarrow> content
                | Some anyMath \<Rightarrow>
                    Some (cleanMathMLSpacing (ensureMathMLNamespace (outerHTML doc anyMath))))
             else content)
      in content)"

text \<open>The body of the \<^verbatim>\<open>try\<close> block: what it returns, or the \<^verbatim>\<open>ExtensionError\<close> it
  throws. The argument \<open>None\<close> is a value that is no node.\<close>

definition getEquationContent_try ::
  "mathjax \<Rightarrow> document \<Rightarrow> nat option \<Rightarrow> jsstring \<Rightarrow> extension_error + jsstring option" where
  "getEquationContent_try mj doc equation format =
     (case equation of
        None \<Rightarrow> Inl (ExtensionError INVALID_ELEMENT HIGH)
      | Some eq \<Rightarrow>
          (let format = (if format \<notin> set validFormats then defaultFormat else format);
               content = extracted_content mj doc eq format
           in if truthy content \<and> length (trim (the content)) > 0 then
                (let sanitized = trim (the content) in
                 if length sanitized > 100000
                 then Inl (ExtensionError CONTENT_TOO_LARGE MEDIUM)
                 else Inr (Some sanitized))
              else Inr None))"

text \<open>The whole function: the \<^verbatim>\<open>catch\<close> branch counts the error and returns \<^verbatim>\<open>null\<close>.\<close>

definition getEquationContent ::
  "mathjax \<Rightarrow> document \<Rightarrow> state \<Rightarrow> nat option \<Rightarrow> jsstring \<Rightarrow> jsstring option \<times> state" where
  "getEquationContent mj doc st equation format =
     (case getEquationContent_try mj doc equation format of
        Inr content \<Rightarrow> (content, st)
      | Inl error \<Rightarrow>
          (let st = st\<lparr>errorCount := errorCount st + 1\<rparr>
           in if errorCount st > maxErrors st then (None, st) else (None, st)))"


section \<open>Copying: \<^verbatim>\<open>DOMProcessor\<close>\<close>

text \<open>
  What the browser offers: the MathJax of the page, whether \<^verbatim>\<open>navigator.clipboard.write\<close>
  and \<^verbatim>\<open>writeText\<close> exist (\<open>None\<close> when they do not) and succeed, whether
  \<^verbatim>\<open>document.execCommand('copy')\<close> succeeds, and whether the extension context is valid.
\<close>

record browser =
  mathjax :: mathjax
  clipboard_write :: "bool option"
  clipboard_writeText :: "bool option"
  execCommand_copy :: bool
  runtime_id :: bool

datatype notification =
    EquationCopied jsstring jsstring jsstring "nat option"
  | SelectionUpdated nat

text \<open>The page, the module state, the items on the clipboard (type and data) and the
  messages sent to the background script.\<close>

record world =
  doc :: document
  st :: state
  clipboard :: "(jsstring \<times> jsstring) list"
  sent :: "notification list"

text \<open>\<^verbatim>\<open>copyToClipboard\<close>: the items written, or the error thrown. The two checks of the
  input come before the \<^verbatim>\<open>try\<close> block; an error of the modern interface is of
  severity \<open>MEDIUM\<close> or no \<^verbatim>\<open>ExtensionError\<close>, so the \<^verbatim>\<open>catch\<close> branch goes on to
  \<^verbatim>\<open>execCommand\<close>.\<close>

definition copyToClipboard ::
  "browser \<Rightarrow> jsstring \<Rightarrow> jsstring \<Rightarrow> extension_error + (jsstring \<times> jsstring) list" where
  "copyToClipboard env text format =
     (if text = [] \<or> length text = 0 then Inl (ExtensionError INVALID_CLIPBOARD_CONTENT HIGH)
      else if length text > 1000000 then Inl (ExtensionError CONTENT_TOO_LARGE MEDIUM)
      else if format = js ''mathml'' \<and> clipboard_write env = Some True
           then Inr [(js ''text/html'', text), (js ''text/plain'', text)]
      else if clipboard_writeText env = Some True then Inr [(js ''text/plain'', text)]
      else if execCommand_copy env then Inr [(js ''text/plain'', text)]
      else Inl (ExtensionError CLIPBOARD_COPY_FAILED HIGH))"

text \<open>Some way of writing to the clipboard succeeds for this format.\<close>

definition clipboard_works :: "browser \<Rightarrow> jsstring \<Rightarrow> bool" where
  "clipboard_works env format =
     ((format = js ''mathml'' \<and> clipboard_write env = Some True) \<or>
      clipboard_writeText env = Some True \<or> execCommand_copy env)"

definition MAX_CLIPBOARD_HISTORY :: nat where
  "MAX_CLIPBOARD_HISTORY = 20"

definition addToClipboardHistory :: "state \<Rightarrow> jsstring \<Rightarrow> jsstring \<Rightarrow> state" where
  "addToClipboardHistory s content format =
     (let h = (content, format) # clipboardHistory s
      in s\<lparr>clipboardHistory := (if length h > MAX_CLIPBOARD_HISTORY then take MAX_CLIPBOARD_HISTORY h else h)\<rparr>)"

definition notifyBackground :: "browser \<Rightarrow> world \<Rightarrow> notification \<Rightarrow> world" where
  "notifyBackground env w n = (if \<not> runtime_id env then w else w\<lparr>sent := sent w @ [n]\<rparr>)"

definition notifySelectionChange :: "browser \<Rightarrow> world \<Rightarrow> world" where
  "notifySelectionChange env w =
     notifyBackground env w (SelectionUpdated (length (selectedEquations (st w))))"

definition clearSelection :: "browser \<Rightarrow> world \<Rightarrow> world" where
  "clearSelection env w =
     (let w = w\<lparr>doc := foldl (\<lambda>d equation. classList_remove d equation (js ''math-copy-selected''))
                          (doc w) (selectedEquations (st w))\<rparr>;
          w = w\<lparr>st := (st w)\<lparr>selectedEquations := []\<rparr>\<rparr>
      in notifySelectionChange env w)"

text \<open>The loop of \<^verbatim>\<open>copySelectedEquations\<close> over the selection: the contents that are
  not empty, in order, and the state after the calls.\<close>

fun extract_all ::
  "browser \<Rightarrow> document \<Rightarrow> state \<Rightarrow> nat list \<Rightarrow> jsstring list \<times> state" where
  "extract_all env d s [] = ([], s)"
| "extract_all env d s (equation # equations) =
     (case getEquationContent (mathjax env) d s (Some equation) (currentFormat s) of
        (content, s') \<Rightarrow>
          (case extract_all env d s' equations of
             (contents, s'') \<Rightarrow>
               ((if truthy content then [the content] else []) @ contents, s'')))"

definition copySelectedEquations :: "browser \<Rightarrow> world \<Rightarrow> world" where
  "copySelectedEquations env w =
     (if length (selectedEquations (st w)) = 0 then w
      else
        (let equations = selectedEquations (st w) in
         case extract_all env (doc w) (st w) equations of
           (contents, s) \<Rightarrow>
             (let w = w\<lparr>st := s\<rparr> in
              if length contents > 0 then
                (let combinedContent = join (js ''\<newline>\<newline>'') contents in
                 case copyToClipboard env combinedContent (currentFormat (st w)) of
                   Inl error \<Rightarrow> w
                 | Inr items \<Rightarrow>
                     (let w = w\<lparr>clipboard := items\<rparr>;
                          w = w\<lparr>st := addToClipboardHistory (st w) combinedContent (currentFormat (st w))\<rparr>;
                          w = notifyBackground env w
                                (EquationCopied combinedContent (currentFormat (st w))
                                   (js ''Multiple Selection'') (Some (length contents)));
                          w = w\<lparr>doc := foldl (\<lambda>d equation. classList_add d equation (js ''math-copy-success''))
                                              (doc w) equations\<rparr>
                      in clearSelection env w))
              else w)))"

section \<open>Detection: scanning the page\<close>

definition processed_attr :: jsstring where
  "processed_attr = js ''data-katex-processed''"

definition mathjax_selector :: selector where
  "mathjax_selector = [[[Class (js ''MathJax'')]], [[Class (js ''mjx-chtml'')]], [[Class (js ''mjx-container'')]]]"

definition findMathContainer :: "document \<Rightarrow> nat \<Rightarrow> nat option" where
  "findMathContainer d element =
     (if classList_contains d element (js ''katex-html'') then closest d element (sel_class ''katex'')
      else if classList_contains d element (js ''katex'') then Some element
      else if closest d element mathjax_selector \<noteq> None then closest d element mathjax_selector
      else if tagName_of d element = js ''MATH'' \<or> closest d element (sel_tag ''math'') \<noteq> None
      then (if tagName_of d element = js ''MATH'' then Some element
            else closest d element (sel_tag ''math''))
      else
        (case closest d element (sel_class ''katex'') of
           Some katex \<Rightarrow> Some katex
         | None \<Rightarrow>
             (case closest d element mathjax_selector of
                Some mjx \<Rightarrow> Some mjx
              | None \<Rightarrow>
                  (case closest d element (sel_tag ''math'') of
                     Some math \<Rightarrow> Some math
                   | None \<Rightarrow> Some element))))"

text \<open>The end of \<^verbatim>\<open>setupEquation\<close>: the class, the accessibility attributes and the
  listeners.\<close>

definition setupEquationListeners :: "world \<Rightarrow> nat \<Rightarrow> world" where
  "setupEquationListeners w equation =
     w\<lparr>doc := (doc w)\<lparr>objs := (objs (doc w))
          (equation := (objs (doc w) equation)\<lparr>listeners := listeners (objs (doc w) equation) + 1\<rparr>)\<rparr>\<rparr>"

definition make_copyable :: "world \<Rightarrow> nat \<Rightarrow> world" where
  "make_copyable w equation =
     (let d = classList_add (doc w) equation (js ''math-copy-element'');
          d = setAttribute d equation (js ''tabindex'') (js ''0'');
          d = setAttribute d equation (js ''role'') (js ''button'');
          d = setAttribute d equation (js ''aria-label'') (js ''Mathematical equation - click to copy'')
      in setupEquationListeners (w\<lparr>doc := d\<rparr>) equation)"

definition already_set_up :: "document \<Rightarrow> nat \<Rightarrow> bool" where
  "already_set_up d equation =
     (classList_contains d equation (js ''math-copy-element'') \<or>
      (case parentElement d equation of
         None \<Rightarrow> False
       | Some parent \<Rightarrow> classList_contains d parent (js ''math-copy-element'')))"

text \<open>\<^verbatim>\<open>setupEquation\<close>. Its one recursive call is on a \<^verbatim>\<open>.katex\<close> container, for which
  the call ends in the first three tests or sets the container up.\<close>

definition setupEquation :: "world \<Rightarrow> nat \<Rightarrow> world" where
  "setupEquation w equation =
     (if already_set_up (doc w) equation then w
      else if classList_contains (doc w) equation (js ''katex'') then make_copyable w equation
      else if classList_contains (doc w) equation (js ''katex-html'') then
        (case closest (doc w) equation (sel_class ''katex'') of
           None \<Rightarrow> w
         | Some katexContainer \<Rightarrow>
             if katexContainer \<noteq> equation then
               (if already_set_up (doc w) katexContainer then w
                else make_copyable w katexContainer)
             else w)
      else make_copyable w equation)"

definition set_katexHtmlElement :: "world \<Rightarrow> nat \<Rightarrow> nat \<Rightarrow> world" where
  "set_katexHtmlElement w container element =
     w\<lparr>doc := (doc w)\<lparr>objs := (objs (doc w))
          (container := (objs (doc w) container)\<lparr>katexHtmlElement := Some element\<rparr>)\<rparr>\<rparr>"

text \<open>The body of the \<^verbatim>\<open>forEach\<close> of \<^verbatim>\<open>processBatch\<close>.\<close>

definition process_element :: "world \<Rightarrow> nat \<Rightarrow> world" where
  "process_element w element =
     (if classList_contains (doc w) element (js ''katex-html'') then
        (if hasAttribute (doc w) element processed_attr then w
         else
           (case closest (doc w) element (sel_class ''katex'') of
              None \<Rightarrow> w
            | Some katexContainer \<Rightarrow>
                if \<not> hasAttribute (doc w) katexContainer processed_attr then
                  (let w = set_katexHtmlElement w katexContainer element;
                       w = setupEquation w katexContainer;
                       w = w\<lparr>doc := setAttribute (doc w) katexContainer processed_attr (js ''true'')\<rparr>;
                       w = w\<lparr>doc := setAttribute (doc w) element processed_attr (js ''true'')\<rparr>;
                       w = w\<lparr>st := (st w)\<lparr>processedElements :=
                                 insert element (insert katexContainer (processedElements (st w)))\<rparr>\<rparr>
                   in w)
                else w))
      else
        (if hasAttribute (doc w) element processed_attr then w
         else
           (case findMathContainer (doc w) element of
              None \<Rightarrow> w
            | Some container \<Rightarrow>
                if \<not> hasAttribute (doc w) container processed_attr then
                  (let w = setupEquation w container;
                       w = w\<lparr>doc := setAttribute (doc w) container processed_attr (js ''true'')\<rparr>;
                       w = w\<lparr>st := (st w)\<lparr>processedElements :=
                                 insert container (processedElements (st w))\<rparr>\<rparr>
                   in w)
                else w)))"

definition BATCH_SIZE :: nat where
  "BATCH_SIZE = 10"

text \<open>A timer set by \<^verbatim>\<open>processBatch\<close>: the elements and the index to go on from.\<close>

type_synonym task = "nat list \<times> nat"

text \<open>One call of \<^verbatim>\<open>processBatch\<close>: the batch is processed at once, the rest is left to
  a timer.\<close>

definition processBatch :: "world \<Rightarrow> nat list \<Rightarrow> nat \<Rightarrow> world \<times> task list" where
  "processBatch w elements startIndex =
     (if startIndex \<ge> length elements then (w, [])
      else
        (let endIndex = min (startIndex + BATCH_SIZE) (length elements);
             batch = take (endIndex - startIndex) (drop startIndex elements);
             w = foldl process_element w batch
         in (w, if endIndex < length elements then [(elements, endIndex)] else [])))"

definition not_processed :: "simple_selector list \<Rightarrow> selector" where
  "not_processed c = [[c @ [NotHasAttr processed_attr]]]"

definition otherSelectors :: "selector list" where
  "otherSelectors = [not_processed [Class (js ''MathJax'')], not_processed [Class (js ''mjx-chtml'')],
     not_processed [Class (js ''mjx-container'')], not_processed [Tag (js ''math'')],
     not_processed [HasAttr (js ''data-math'')]]"

definition scan_selector :: "world \<times> task list \<Rightarrow> selector \<Rightarrow> world \<times> task list" where
  "scan_selector wt sel =
     (case wt of (w, timers) \<Rightarrow>
        (let equations = document_querySelectorAll (doc w) sel in
         if length equations > 0 then
           (case processBatch w equations 0 of (w', t) \<Rightarrow> (w', timers @ t))
         else (w, timers)))"

text \<open>\<^verbatim>\<open>processExistingEquations\<close>: the page after the synchronous part, and the timers it
  has set, in the order they were set.\<close>

definition processExistingEquations :: "world \<Rightarrow> world \<times> task list" where
  "processExistingEquations w =
     foldl scan_selector (w, []) (not_processed [Class (js ''katex-html'')] # otherSelectors)"

text \<open>The timers run in the order they were set; a batch that leaves a rest sets a new
  timer behind the pending ones.\<close>

definition pending :: "task list \<Rightarrow> nat" where
  "pending ts = sum_list (map (\<lambda>(elements, i). length elements - i) ts)"

function run_timers :: "world \<Rightarrow> task list \<Rightarrow> world" where
  "run_timers w [] = w"
| "run_timers w ((elements, i) # ts) =
     (case processBatch w elements i of (w', t) \<Rightarrow> run_timers w' (ts @ t))"
  by pat_completeness auto
termination
  by (relation "measures [\<lambda>(w, ts). pending ts, \<lambda>(w, ts). length ts]")
     (auto simp: pending_def processBatch_def BATCH_SIZE_def Let_def split: if_splits)

text \<open>A scan that is left to finish: \<^verbatim>\<open>processExistingEquations\<close> and then its timers.\<close>

definition scan :: "world \<Rightarrow> world" where
  "scan w = (case processExistingEquations w of (w', timers) \<Rightarrow> run_timers w' timers)"


section \<open>Auxiliary notions for the proofs\<close>

text \<open>A regular expression every match of which begins with the character \<open>c\<close>, and one
  every match of which ends with \<open>c\<close>.\<close>

fun needs_first :: "nat \<Rightarrow> regex \<Rightarrow> bool" where
  "needs_first c (Lit d) = (d = c)"
| "needs_first c (Cat a b) = needs_first c a"
| "needs_first c (Alt a b) = (needs_first c a \<and> needs_first c b)"
| "needs_first c (Grp n a) = needs_first c a"
| "needs_first c r = False"


text \<open>
  The validity of a MathML string in the words of the specification: the string contains
  an opening \<^verbatim>\<open><math\<close> tag, a closing \<^verbatim>\<open></math>\<close> tag and the namespace declaration (in
  double or in single quotes), and \<^verbatim>\<open><math\<close> occurs as often as \<^verbatim>\<open></math>\<close>.
\<close>

definition valid_mathml_spec :: "jsstring \<Rightarrow> bool" where
  "valid_mathml_spec s =
     (str_includes s (js ''<math'') \<and>
      str_includes s (js ''</math>'') \<and>
      (str_includes s (js ''xmlns=\"http://www.w3.org/1998/Math/MathML\"'') \<or>
       str_includes s (js ''xmlns='' @ [39] @ js ''http://www.w3.org/1998/Math/MathML'' @ [39])) \<and>
      count_matches False (Str (js ''<math'')) 0 s = count_matches False (Str (js ''</math>'')) 0 s)"

text \<open>
  What a scan may change in the page. \<open>grows d d'\<close>: the tree is the same, no element has
  lost the mark \<^verbatim>\<open>data-katex-processed\<close>, and apart from the class \<^verbatim>\<open>math-copy-element\<close> and
  the attributes that \<^verbatim>\<open>setupEquation\<close> and \<^verbatim>\<open>processBatch\<close> write, classes and
  attributes are the same.
\<close>

definition scan_attributes :: "jsstring list" where
  "scan_attributes = [js ''class'', js ''tabindex'', js ''role'', js ''aria-label'', processed_attr]"

definition grows :: "document \<Rightarrow> document \<Rightarrow> bool" where
  "grows d d' =
     (tree d' = tree d \<and>
      (\<forall>i. (hasAttribute d i processed_attr \<longrightarrow> hasAttribute d' i processed_attr) \<and>
           (\<forall>c. c \<noteq> js ''math-copy-element'' \<longrightarrow>
                  classList_contains d' i c = classList_contains d i c) \<and>
           (\<forall>a. a \<notin> set scan_attributes \<longrightarrow> getAttribute d' i a = getAttribute d i a)))"

text \<open>A simple selector that reads nothing a scan changes.\<close>

fun stable_simple :: "simple_selector \<Rightarrow> bool" where
  "stable_simple (Tag t) = True"
| "stable_simple (Class c) = (c \<noteq> js ''math-copy-element'')"
| "stable_simple (HasAttr a) = (a \<notin> set scan_attributes)"
| "stable_simple (AttrEq a v) = (a \<notin> set scan_attributes)"
| "stable_simple (NotHasAttr a) = (a \<notin> set scan_attributes)"

definition stable_selector :: "selector \<Rightarrow> bool" where
  "stable_selector sel = (\<forall>cx \<in> set sel. \<forall>c \<in> set cx. \<forall>s \<in> set c. stable_simple s)"

text \<open>An element that \<^verbatim>\<open>processBatch\<close> passes over: it is marked, or it has no container,
  or its container is marked.\<close>

definition settled :: "document \<Rightarrow> nat \<Rightarrow> bool" where
  "settled d e =
     (hasAttribute d e processed_attr \<or>
      (case findMathContainer d e of None \<Rightarrow> True | Some c \<Rightarrow> hasAttribute d c processed_attr))"

text \<open>The elements that the pending timers will still process.\<close>

definition pending_elements :: "task list \<Rightarrow> nat set" where
  "pending_elements ts = (\<Union>(elements, i) \<in> set ts. set (drop i elements))"

definition scan_selectors :: "selector list" where
  "scan_selectors = not_processed [Class (js ''katex-html'')] # otherSelectors"

text \<open>A class token: not empty, without white space.\<close>

definition token_ok :: "jsstring \<Rightarrow> bool" where
  "token_ok t = (t \<noteq> [] \<and> (\<forall>c \<in> set t. \<not> is_ascii_ws c))"

text \<open>Every element of every pending timer is settled.\<close>

definition tasks_settled :: "document \<Rightarrow> task list \<Rightarrow> bool" where
  "tasks_settled d ts = (\<forall>(els, i) \<in> set ts. \<forall>e \<in> set els. settled d e)"

text \<open>Every element that one of the selectors finds is settled or waits in a timer.\<close>

definition covered :: "selector list \<Rightarrow> document \<Rightarrow> task list \<Rightarrow> bool" where
  "covered sels d ts =
     (\<forall>sel \<in> set sels. \<forall>e \<in> set (document_querySelectorAll d sel).
        settled d e \<or> e \<in> pending_elements ts)"

section \<open>Example pages\<close>

definition empty_obj :: elem_obj where
  "empty_obj = \<lparr>attributes = [], katexHtmlElement = None, listeners = 0\<rparr>"

definition with_attributes :: "(jsstring \<times> jsstring) list \<Rightarrow> elem_obj" where
  "with_attributes al = \<lparr>attributes = al, katexHtmlElement = None, listeners = 0\<rparr>"

text \<open>The native MathML element
  \<^verbatim>\<open><math xmlns="http://www.w3.org/1998/Math/MathML"><mo> (integral) </mo><mi> x </mi></math>\<close>.\<close>

definition scenario_page :: document where
  "scenario_page =
     \<lparr>tree = Element 10 NsMathML (js ''math'')
               [Element 11 NsMathML (js ''mo'') [TextNode [32, 8747, 32]],
                Element 12 NsMathML (js ''mi'') [TextNode (js '' x '')]],
      objs = (\<lambda>i. empty_obj)
               (10 := with_attributes [(js ''xmlns'', js ''http://www.w3.org/1998/Math/MathML'')])\<rparr>"

definition scenario_source :: jsstring where
  "scenario_source = js ''<math xmlns=\"http://www.w3.org/1998/Math/MathML\"><mo> '' @ [8747] @
                     js '' </mo><mi> x </mi></math>''"

text \<open>What the specification expects from the scenario, and what the code gives.\<close>

definition scenario_expected :: jsstring where
  "scenario_expected = js ''<math xmlns=\"http://www.w3.org/1998/Math/MathML\"><mo>'' @ [8747] @
                       js ''</mo><mi>x</mi></math>''"

definition scenario_result :: jsstring where
  "scenario_result = js ''<math xmlns=\"http://www.w3.org/1998/Math/MathML\"><mo>'' @ [8747] @
                     js ''</mo><mi> x </mi></math>''"

text \<open>A KaTeX container rendered without the MathML part: no \<^verbatim>\<open>annotation\<close> element and no
  attribute with the LaTeX source,
  \<^verbatim>\<open><span class="katex"><span class="katex-html"><span class="mord">x</span></span></span>\<close>.\<close>

definition katex_page :: document where
  "katex_page =
     \<lparr>tree = Element 20 NsHTML (js ''span'')
               [Element 21 NsHTML (js ''span'')
                 [Element 22 NsHTML (js ''span'') [TextNode (js ''x'')]]],
      objs = (\<lambda>i. empty_obj)
               (20 := with_attributes [(js ''class'', js ''katex'')],
                21 := with_attributes [(js ''class'', js ''katex-html'')],
                22 := with_attributes [(js ''class'', js ''mord'')])\<rparr>"

text \<open>A browser with a working clipboard and no MathJax on the page.\<close>

definition plain_browser :: browser where
  "plain_browser = \<lparr>mathjax = NoMathJax, clipboard_write = Some True,
     clipboard_writeText = Some True, execCommand_copy = True, runtime_id = True\<rparr>"

text \<open>An element whose \<^verbatim>\<open>data-math\<close> attribute holds 150,000 characters, and a text of
  2,000,000 characters.\<close>

definition oversized_formula :: jsstring where
  "oversized_formula = replicate 150000 120"

definition oversized_page :: document where
  "oversized_page =
     \<lparr>tree = Element 30 NsHTML (js ''div'') [],
      objs = (\<lambda>i. empty_obj)(30 := with_attributes [(js ''data-math'', oversized_formula)])\<rparr>"

definition oversized_text :: jsstring where
  "oversized_text = replicate 2000000 120"

text \<open>A million spaces in front of an empty MathML element.\<close>

definition empty_math :: jsstring where
  "empty_math = js ''<math xmlns=\"http://www.w3.org/1998/Math/MathML\"></math>''"

definition long_mathml :: jsstring where
  "long_mathml = replicate 1000000 32 @ empty_math"

text \<open>Three formulas in \<^verbatim>\<open>data-math\<close> attributes, all three selected, the format
  \<^verbatim>\<open>unicode\<close>.\<close>

definition selection_page :: document where
  "selection_page =
     \<lparr>tree = Element 40 NsHTML (js ''p'')
               [Element 41 NsHTML (js ''span'') [], Element 42 NsHTML (js ''span'') [],
                Element 43 NsHTML (js ''span'') []],
      objs = (\<lambda>i. empty_obj)
               (41 := with_attributes [(js ''data-math'', js ''a+b''), (js ''class'', js ''math-copy-selected'')],
                42 := with_attributes [(js ''data-math'', js ''c=d''), (js ''class'', js ''math-copy-selected'')],
                43 := with_attributes [(js ''data-math'', js ''e<f''), (js ''class'', js ''math-copy-selected'')])\<rparr>"

definition selection_world :: world where
  "selection_world =
     \<lparr>doc = selection_page,
      st = initial_state\<lparr>selectedEquations := [41, 42, 43], currentFormat := js ''unicode''\<rparr>,
      clipboard = [], sent = []\<rparr>"

text \<open>The KaTeX page before any scan.\<close>

definition katex_world :: world where
  "katex_world = \<lparr>doc = katex_page, st = initial_state, clipboard = [], sent = []\<rparr>"

section \<open>Properties\<close>

subsection \<open>Stripping the dollar delimiters\<close>

lemma not_space_dollar: "\<not> is_space 36"
  by (simp add: is_space_def js_whitespace_def)

lemma trim_snoc_dollar: "trim (t @ [36]) = dropWhile is_space t @ [36]"
  by (simp add: trim_def dropWhile_append3 not_space_dollar)

lemma replace_leading_dollar:
  "replace_first False dollar_re (\<lambda>m g. []) (36 # s) = s"
  by (simp add: replace_first_def dollar_re_def match_at_def one_char_def chr_eq_def)

lemma cleanLatex_delimited:
  "cleanLatex (36 # t @ [36]) = dropWhile is_space t @ [36]"
  by (simp add: cleanLatex_def replace_leading_dollar trim_snoc_dollar)

lemma delimited_shape:
  assumes "2 \<le> length s" "hd s = 36" "last s = 36"
  shows "s = 36 # butlast (tl s) @ [36]"
proof -
  from assms(1) obtain a s' where s: "s = a # s'" "s' \<noteq> []" by (cases s) force+
  with assms(2) have a: "a = 36" by simp
  from s assms(3) have "last s' = 36" by simp
  with s(2) have "s' = butlast s' @ [36]" by (metis append_butlast_last_id)
  with s a show ?thesis by simp
qed

text \<open>
  Claim C10 as stated fails for one string. The string \<^verbatim>\<open>$\<close> starts with a dollar sign
  and ends with one, the same one; \<^verbatim>\<open>cleanLatex\<close> removes it and no dollar sign is left.
\<close>

theorem cleanLatex_single_dollar:
  "hd (js ''$'') = 36 \<and> last (js ''$'') = 36 \<and> cleanLatex (js ''$'') = []"
  by (simp add: js_def cleanLatex_def replace_leading_dollar trim_def)

text \<open>
  Claim C10, amended. From a string of at least two characters that starts with a dollar
  sign and ends with one, \<^verbatim>\<open>cleanLatex\<close> removes the leading dollar sign only (and, by
  \<^verbatim>\<open>trim\<close>, the white space behind it): the trailing dollar sign stays at the end of the
  result, since the regular expression is applied to its first match alone.
\<close>

theorem cleanLatex_keeps_trailing_dollar:
  "2 \<le> length s \<Longrightarrow> hd s = 36 \<Longrightarrow> last s = 36 \<Longrightarrow>
   cleanLatex s = dropWhile is_space (butlast (tl s)) @ [36]"
  using cleanLatex_delimited [of "butlast (tl s)"] delimited_shape [of s] by simp

theorem cleanLatex_keeps_trailing_dollar_witness:
  "2 \<le> length (js ''$x$'') \<and> hd (js ''$x$'') = 36 \<and> last (js ''$x$'') = 36 \<and>
   cleanLatex (js ''$x$'') = js ''x$''"
  using cleanLatex_keeps_trailing_dollar [of "js ''$x$''"]
  by (simp add: js_def is_space_def js_whitespace_def)


subsection \<open>Evaluating the model on concrete pages\<close>

lemmas regex_eval = js_def match_at_def one_char_def chr_eq_def cls_mem_def trim_def is_space_def
  js_whitespace_def Plus_def Opt_def Str_def remaining_def set_group_def to_upper_ascii_def
  to_lower_ascii_def invisible_def spacing_def gt_def lt_def quotes_def

lemmas dom_eval = find_element_def ancestors_or_self_def descendants_def getAttribute_def
  hasAttribute_def classList_def classList_contains_def tokens_def is_ascii_ws_def
  matches_compound_def matches_complex_def matches_def closest_def select_from_def
  querySelectorAll_def querySelector_def document_querySelectorAll_def sel_class_def sel_tag_def
  sel_attr_def outerHTML_def innerHTML_def serialize_attributes_def tagName_of_def
  textContent_of_def opt_or_def or_else_def truthy_def empty_obj_def with_attributes_def js_def

subsection \<open>The scenario of the specification\<close>

lemma clean_scenario: "cleanMathMLSpacing scenario_source = scenario_result"
proof -
  have 1: "replace_all True mspace_re (\<lambda>m g. []) 0 scenario_source = scenario_source"
    by (simp add: regex_eval mspace_re_def scenario_source_def)
  have 2: "replace_all True mtext_re (\<lambda>m g. []) 0 scenario_source = scenario_source"
    by (simp add: regex_eval mtext_re_def scenario_source_def)
  have 3: "replace_all False invisible_re (\<lambda>m g. []) 0 scenario_source = scenario_source"
    by (simp add: regex_eval invisible_re_def scenario_source_def)
  have 4: "replace_all True mpadded_zero_re (\<lambda>m g. []) 0 scenario_source = scenario_source"
    by (simp add: regex_eval mpadded_zero_re_def scenario_source_def)
  have 5: "replace_all True mpadded_em_re (\<lambda>m g. if below_0_05 (group g 1) then [] else m) 0
             scenario_source = scenario_source"
    by (simp add: regex_eval mpadded_em_re_def scenario_source_def)
  have 6: "replace_all True mo_re clean_mo 0 scenario_source = scenario_result"
    by (simp add: regex_eval mo_re_def clean_mo_def invisible_re_def scenario_source_def
          scenario_result_def)
  have 7: "replace_all False between_tags_re (\<lambda>m g. js ''><'') 0 scenario_result = scenario_result"
    by (simp add: regex_eval between_tags_re_def scenario_result_def)
  have 8: "replace_all False after_mo_re (\<lambda>m g. js ''</mo><'') 0 scenario_result = scenario_result"
    by (simp add: regex_eval after_mo_re_def scenario_result_def)
  have 9: "replace_all False after_close_re (\<lambda>m g. group g 1 @ js ''<'') 0 scenario_result
             = scenario_result"
    by (simp add: regex_eval after_close_re_def scenario_result_def)
  show ?thesis
    unfolding cleanMathMLSpacing_def Let_def 1 2 3 4 5 6 7 8 9 ..
qed

lemma scenario_has_xmlns: "str_includes scenario_result (js ''xmlns='')"
  by (simp add: scenario_result_def js_def)

lemma scenario_outerHTML: "outerHTML scenario_page 10 = scenario_source"
  by (simp add: dom_eval scenario_page_def scenario_source_def)

lemma scenario_math_element: "math_element scenario_page 10 = Some 10"
  by (simp add: math_element_def dom_eval scenario_page_def)

lemma mathml_of_scenario:
  "outerHTML d m = scenario_source \<Longrightarrow> mathml_of_element d m = scenario_result"
  by (simp add: mathml_of_element_def clean_scenario scenario_has_xmlns)

lemma scenario_differs: "scenario_result \<noteq> scenario_expected"
  by (simp add: scenario_result_def scenario_expected_def js_def)

lemma extractFromMathML_scenario:
  "math_element d e = Some m \<Longrightarrow> outerHTML d m = scenario_source \<Longrightarrow>
   extractFromMathML d e (js ''mathml'') = Some scenario_result"
  by (simp add: extractFromMathML_def mathml_of_scenario)

text \<open>
  Claim C3, as the code has it. For an element whose serialisation is
  \<^verbatim>\<open><math xmlns="http://www.w3.org/1998/Math/MathML"><mo> (integral) </mo><mi> x </mi></math>\<close>
  the MathML extraction yields
  \<^verbatim>\<open><math xmlns="http://www.w3.org/1998/Math/MathML"><mo>(integral)</mo><mi> x </mi></math>\<close>:
  the white space inside the operator element is removed, the white space inside the
  identifier element is kept, the namespace attribute is preserved.
\<close>

theorem scenario_extraction:
  "math_element d e = Some m \<Longrightarrow> outerHTML d m = scenario_source \<Longrightarrow>
   extractFromMathML d e (js ''mathml'') = Some scenario_result"
  by (rule extractFromMathML_scenario)

theorem scenario_extraction_witness:
  "math_element scenario_page 10 = Some 10 \<and> outerHTML scenario_page 10 = scenario_source \<and>
   extractFromMathML scenario_page 10 (js ''mathml'') = Some scenario_result"
  using scenario_extraction [OF scenario_math_element scenario_outerHTML]
  by (simp add: scenario_math_element scenario_outerHTML)

text \<open>Claim C3 as stated fails: the result is not the string without the spaces around
  \<open>x\<close>.\<close>

theorem scenario_identifier_keeps_spaces:
  "outerHTML scenario_page 10 = scenario_source \<and>
   extractFromMathML scenario_page 10 (js ''mathml'') \<noteq> Some scenario_expected"
  by (simp add: extractFromMathML_scenario [OF scenario_math_element scenario_outerHTML]
        scenario_outerHTML scenario_differs)

lemma scenario_extracted:
  "extracted_content mj scenario_page 10 (js ''mathml'') = Some scenario_result"
proof -
  have a: "\<not> classList_contains scenario_page 10 (js ''katex'')"
    by (simp add: dom_eval scenario_page_def)
  have b: "closest scenario_page 10 [[[Class (js ''katex''), HasAttr (js ''data-katex-processed'')]]] = None"
    "closest scenario_page 10 (sel_class ''katex'') = None"
    "closest scenario_page 10 (sel_class ''MathJax'') = None"
    "closest scenario_page 10 (sel_class ''mjx-chtml'') = None"
    "closest scenario_page 10 (sel_class ''mjx-container'') = None"
    "closest scenario_page 10 (sel_tag ''math'') = Some 10"
    by (simp_all add: dom_eval scenario_page_def)
  have c: "extractFromMathML scenario_page 10 (js ''mathml'') = Some scenario_result"
    by (rule extractFromMathML_scenario [OF scenario_math_element scenario_outerHTML])
  have d: "scenario_result \<noteq> []" by (simp add: scenario_result_def js_def)
  show ?thesis
    by (simp add: extracted_content_def a b c d opt_or_def truthy_def)
qed

lemma trim_scenario: "trim scenario_result = scenario_result"
  by (simp add: trim_def is_space_def js_whitespace_def scenario_result_def js_def)

lemma mathml_valid: "js ''mathml'' \<in> set validFormats"
  by (simp add: validFormats_def)

lemma scenario_content:
  "getEquationContent mj scenario_page s (Some 10) (js ''mathml'') = (Some scenario_result, s)"
proof -
  have l: "length scenario_result \<le> 100000" "scenario_result \<noteq> []"
    by (simp_all add: scenario_result_def js_def)
  show ?thesis
    using mathml_valid l
    by (simp add: getEquationContent_def getEquationContent_try_def scenario_extracted trim_scenario
          truthy_def Let_def)
qed

subsection \<open>The error counter\<close>

text \<open>
  Claim C2 at a failing input. With the error counter at 11, above \<open>maxErrors = 10\<close>, a call
  of \<^verbatim>\<open>getEquationContent\<close> on the MathML element of the scenario still extracts and
  returns the content: the counter is compared with the bound in the \<^verbatim>\<open>catch\<close> branch
  only, and both outcomes of the comparison return \<^verbatim>\<open>null\<close>.
\<close>

theorem extraction_continues_after_too_many_errors:
  "maxErrors (initial_state\<lparr>errorCount := 11\<rparr>) < errorCount (initial_state\<lparr>errorCount := 11\<rparr>) \<and>
   getEquationContent NoMathJax scenario_page (initial_state\<lparr>errorCount := 11\<rparr>) (Some 10)
     (js ''mathml'') = (Some scenario_result, initial_state\<lparr>errorCount := 11\<rparr>)"
  by (simp add: scenario_content) (simp add: initial_state_def)

subsection \<open>The default format\<close>

text \<open>
  Claim C9. For a format outside \<open>validFormats\<close>, \<^verbatim>\<open>getEquationContent\<close> returns what it
  returns for the format \<^verbatim>\<open>mathml\<close> on the same element, and leaves the same state.
\<close>

theorem unknown_format_falls_back_to_mathml:
  "format \<notin> set validFormats \<Longrightarrow>
   getEquationContent mj d s equation format = getEquationContent mj d s equation (js ''mathml'')"
  unfolding getEquationContent_def getEquationContent_try_def defaultFormat_def
  using mathml_valid by simp

theorem unknown_format_falls_back_to_mathml_witness:
  "js ''pdf'' \<notin> set validFormats \<and>
   getEquationContent NoMathJax scenario_page initial_state (Some 10) (js ''pdf'')
     = (Some scenario_result, initial_state)"
proof -
  have h: "js ''pdf'' \<notin> set validFormats"
    by (simp add: validFormats_def js_def)
  show ?thesis
    using unknown_format_falls_back_to_mathml [OF h, of NoMathJax scenario_page initial_state "Some 10"] h
    by (simp add: scenario_content)
qed

subsection \<open>KaTeX without a LaTeX source\<close>

lemma katex_is_container: "classList_contains katex_page 20 (js ''katex'')"
  by (simp add: dom_eval katex_page_def)

lemma katex_no_annotation: "querySelector katex_page 20 (sel_tag ''annotation'') = None"
  by (simp add: dom_eval katex_page_def)

lemma katex_no_source_attribute:
  "getAttribute katex_page 20 (js ''data-latex'') = None"
  "getAttribute katex_page 20 (js ''data-tex'') = None"
  "getAttribute katex_page 20 (js ''data-original'') = None"
  by (simp_all add: dom_eval katex_page_def)

lemma katex_latex_none: "extractFromKaTeX katex_page 20 (js ''latex'') = None"
  by (simp add: extractFromKaTeX_def katex_is_container katex_no_annotation
        katex_no_source_attribute or_else_def truthy_def)

lemma katex_rendered_text: "convertToUnicode katex_page 20 = Some (js ''x'')"
  by (simp add: convertToUnicode_def extractTextContent_def walker_text_def trim_def is_space_def
        js_whitespace_def to_lower_ascii_def to_upper_ascii_def dom_eval katex_page_def)

lemma katex_extracted: "extracted_content mj katex_page 20 (js ''latex'') = Some (js ''x'')"
  by (simp add: extracted_content_def katex_is_container katex_latex_none katex_rendered_text
        truthy_def) (simp add: js_def)

text \<open>
  Claim C1 at a failing input. The KaTeX container
  \<^verbatim>\<open><span class="katex"><span class="katex-html"><span class="mord">x</span></span></span>\<close>
  has no \<^verbatim>\<open>annotation\<close> element and none of the attributes \<^verbatim>\<open>data-latex\<close>, \<^verbatim>\<open>data-tex\<close>,
  \<^verbatim>\<open>data-original\<close>. \<^verbatim>\<open>extractFromKaTeX\<close> returns \<^verbatim>\<open>null\<close> for the format \<^verbatim>\<open>latex\<close>, as
  its comment says, but \<^verbatim>\<open>getEquationContent\<close> then falls back to \<^verbatim>\<open>convertToUnicode\<close>
  and returns the rendered text \<^verbatim>\<open>x\<close>.
\<close>

theorem katex_latex_falls_back_to_rendered_text:
  "classList_contains katex_page 20 (js ''katex'') \<and>
   querySelector katex_page 20 (sel_tag ''annotation'') = None \<and>
   getAttribute katex_page 20 (js ''data-latex'') = None \<and>
   getAttribute katex_page 20 (js ''data-tex'') = None \<and>
   getAttribute katex_page 20 (js ''data-original'') = None \<and>
   extractFromKaTeX katex_page 20 (js ''latex'') = None \<and>
   getEquationContent NoMathJax katex_page initial_state (Some 20) (js ''latex'')
     = (Some (js ''x''), initial_state)"
proof -
  have v: "js ''latex'' \<in> set validFormats" by (simp add: validFormats_def)
  have t: "trim (js ''x'') = js ''x''" "js ''x'' \<noteq> []" "length (js ''x'') = 1"
    by (simp_all add: trim_def is_space_def js_whitespace_def js_def)
  have "getEquationContent NoMathJax katex_page initial_state (Some 20) (js ''latex'')
     = (Some (js ''x''), initial_state)"
    using v t
    by (simp add: getEquationContent_def getEquationContent_try_def katex_extracted truthy_def Let_def)
  then show ?thesis
    by (simp add: katex_is_container katex_no_annotation katex_no_source_attribute katex_latex_none)
qed

subsection \<open>The size bounds\<close>

lemma try_too_large:
  assumes "extracted_content mj d eq (if format \<notin> set validFormats then defaultFormat else format) = Some c"
    and "100000 < length (trim c)"
  shows "getEquationContent_try mj d (Some eq) format = Inl (ExtensionError CONTENT_TOO_LARGE MEDIUM)"
proof -
  from assms(2) have "c \<noteq> []" by (auto simp: trim_def)
  moreover from assms(2) have "trim c \<noteq> []" by auto
  ultimately show ?thesis using assms
    by (simp add: getEquationContent_try_def Let_def truthy_def)
qed

lemma copyToClipboard_too_large:
  "1000000 < length text \<Longrightarrow>
   copyToClipboard env text format = Inl (ExtensionError CONTENT_TOO_LARGE MEDIUM)"
  by (auto simp: copyToClipboard_def)

lemma trim_no_space: "\<not> is_space c \<Longrightarrow> trim (replicate n c) = replicate n c"
  by (cases n) (simp_all add: trim_def replicate_append_same [symmetric] del: replicate_Suc)

lemma oversized_formula_facts:
  "oversized_formula \<noteq> []" "trim oversized_formula = oversized_formula"
  "length oversized_formula = 150000"
  by (simp_all add: oversized_formula_def trim_no_space is_space_def js_whitespace_def)

lemma oversized_extracted:
  "extracted_content mj oversized_page 30 (js ''unicode'') = Some oversized_formula"
proof -
  have a: "\<not> classList_contains oversized_page 30 (js ''katex'')"
    "closest oversized_page 30 [[[Class (js ''katex''), HasAttr (js ''data-katex-processed'')]]] = None"
    "closest oversized_page 30 (sel_class ''katex'') = None"
    "closest oversized_page 30 (sel_class ''MathJax'') = None"
    "closest oversized_page 30 (sel_class ''mjx-chtml'') = None"
    "closest oversized_page 30 (sel_class ''mjx-container'') = None"
    "closest oversized_page 30 (sel_tag ''math'') = None"
    "tagName_of oversized_page 30 \<noteq> js ''MATH''"
    "hasAttribute oversized_page 30 (js ''data-math'')"
    "getAttribute oversized_page 30 (js ''data-math'') = Some oversized_formula"
    by (simp_all add: dom_eval oversized_page_def to_upper_ascii_def)
  have b: "js ''unicode'' \<noteq> js ''latex''" "js ''unicode'' \<noteq> js ''mathml''"
    by (simp_all add: js_def)
  show ?thesis
    by (simp add: extracted_content_def extractFromDataAttribute_def a b opt_or_def or_else_def
          truthy_def oversized_formula_facts)
qed

text \<open>
  Claim C5. When the content found for an element is longer than 100,000 characters after
  trimming, the \<^verbatim>\<open>try\<close> block of \<^verbatim>\<open>getEquationContent\<close> throws \<open>CONTENT_TOO_LARGE\<close> and the
  function returns \<^verbatim>\<open>null\<close>, counting one error: the oversized string is not returned.
  \<^verbatim>\<open>copyToClipboard\<close> throws \<open>CONTENT_TOO_LARGE\<close> for a text of more than 1,000,000
  characters and writes nothing. Nothing is truncated.
\<close>

theorem oversized_content_is_rejected:
  "(extracted_content mj d eq (if format \<notin> set validFormats then defaultFormat else format) = Some c \<and>
     100000 < length (trim c) \<longrightarrow>
       getEquationContent_try mj d (Some eq) format = Inl (ExtensionError CONTENT_TOO_LARGE MEDIUM) \<and>
       getEquationContent mj d s (Some eq) format = (None, s\<lparr>errorCount := errorCount s + 1\<rparr>)) \<and>
   (1000000 < length text \<longrightarrow>
       copyToClipboard env text fmt = Inl (ExtensionError CONTENT_TOO_LARGE MEDIUM))"
  by (simp add: try_too_large copyToClipboard_too_large getEquationContent_def Let_def)

theorem oversized_content_is_rejected_witness:
  "extracted_content NoMathJax oversized_page 30 (js ''unicode'') = Some oversized_formula \<and>
   length (trim oversized_formula) = 150000 \<and>
   getEquationContent_try NoMathJax oversized_page (Some 30) (js ''unicode'')
     = Inl (ExtensionError CONTENT_TOO_LARGE MEDIUM) \<and>
   getEquationContent NoMathJax oversized_page initial_state (Some 30) (js ''unicode'')
     = (None, initial_state\<lparr>errorCount := 1\<rparr>) \<and>
   length oversized_text = 2000000 \<and>
   copyToClipboard plain_browser oversized_text (js ''mathml'')
     = Inl (ExtensionError CONTENT_TOO_LARGE MEDIUM)"
proof -
  have v: "js ''unicode'' \<in> set validFormats" by (simp add: validFormats_def)
  have e: "errorCount initial_state = 0" by (simp add: initial_state_def)
  have l: "length oversized_text = 2000000" by (simp add: oversized_text_def)
  show ?thesis
    using oversized_content_is_rejected [of NoMathJax oversized_page 30 "js ''unicode''"
        oversized_formula initial_state oversized_text plain_browser "js ''mathml''"]
    by (simp add: v e l oversized_extracted oversized_formula_facts)
qed

subsection \<open>Spacing cleanup applied twice\<close>





subsection \<open>Matches that need a character the string does not have\<close>

lemma no_match_first:
  "needs_first c r \<Longrightarrow> \<not> chr_eq ic c x \<Longrightarrow> ms ic r (p, x # xs, g) = []"
  by (induction r arbitrary: p g) (auto simp: one_char_def)














subsection \<open>Validation\<close>

lemma str_includes_prepend: "str_includes s pat \<Longrightarrow> str_includes (r @ s) pat"
  by (induction r) auto

lemma count_skip_spaces:
  "needs_first 60 r \<Longrightarrow>
   count_matches False r p (replicate n 32 @ s) = count_matches False r (p + n) s"
proof (induction n arbitrary: p)
  case 0
  then show ?case by simp
next
  case (Suc n)
  have "ms False r (p, 32 # replicate n 32 @ s, []) = []"
    by (rule no_match_first [OF Suc.prems]) (simp add: chr_eq_def)
  then have "match_at False r p (32 # replicate n 32 @ s) = None"
    by (simp add: match_at_def)
  then show ?case
    using Suc.IH [OF Suc.prems, of "Suc p"]
    by (subst count_matches.simps) simp
qed

lemma needs_first_Str: "needs_first c (Str (c # s))"
  by (cases s) (simp_all add: Str_def)

lemma long_mathml_valid_spec: "valid_mathml_spec long_mathml"
proof -
  have f: "needs_first 60 (Str (js ''<math''))" "needs_first 60 (Str (js ''</math>''))"
    by (simp_all add: js_def needs_first_Str)
  have c: "count_matches False (Str (js ''<math'')) 1000000 empty_math = 1"
     "count_matches False (Str (js ''</math>'')) 1000000 empty_math = 1"
    by (simp_all add: empty_math_def regex_eval)
  have i: "str_includes empty_math (js ''<math'')" "str_includes empty_math (js ''</math>'')"
    "str_includes empty_math (js ''xmlns=\"http://www.w3.org/1998/Math/MathML\"'')"
    by (simp_all add: empty_math_def js_def)
  have c': "count_matches False (Str (js ''<math'')) 0 (replicate 1000000 32 @ empty_math) = 1"
     "count_matches False (Str (js ''</math>'')) 0 (replicate 1000000 32 @ empty_math) = 1"
    using c by (simp_all only: count_skip_spaces [OF f(1)] count_skip_spaces [OF f(2)] add_0)
  show ?thesis
    unfolding valid_mathml_spec_def long_mathml_def c'
    using i by (simp only: str_includes_prepend simp_thms)
qed

lemma long_mathml_length: "length long_mathml = 1000056"
  by (simp add: long_mathml_def empty_math_def js_def)

text \<open>
  Claim C6 as stated fails: a million spaces followed by
  \<^verbatim>\<open><math xmlns="http://www.w3.org/1998/Math/MathML"></math>\<close> has the open tag, the close
  tag, the namespace and equal counts, and \<^verbatim>\<open>validateMathML\<close> rejects it for its length.
\<close>

theorem validateMathML_rejects_long_valid_string:
  "valid_mathml_spec long_mathml \<and> \<not> validateMathML long_mathml"
  using long_mathml_valid_spec long_mathml_length
  by (simp add: validateMathML_def)

text \<open>
  Claim C6, amended. \<^verbatim>\<open>validateMathML\<close> holds for a string exactly when the string has
  at most 1,000,000 characters and contains \<^verbatim>\<open><math\<close>, \<^verbatim>\<open></math>\<close> and the namespace
  declaration, with as many occurrences of \<^verbatim>\<open><math\<close> as of \<^verbatim>\<open></math>\<close>.
\<close>

theorem validateMathML_iff:
  "validateMathML s \<longleftrightarrow> length s \<le> 1000000 \<and> valid_mathml_spec s"
proof (cases "s = []")
  case True
  then show ?thesis by (simp add: validateMathML_def valid_mathml_spec_def js_def)
next
  case False
  then show ?thesis
    by (simp add: validateMathML_def valid_mathml_spec_def Let_def del: count_matches.simps)
qed


subsection \<open>Copying a selection\<close>

lemma try_result_bounds:
  "getEquationContent_try mj d eq fmt = Inr (Some c) \<Longrightarrow> c \<noteq> [] \<and> length c \<le> 100000"
  by (auto simp: getEquationContent_try_def Let_def split: option.splits if_splits)

lemma getEquationContent_success:
  "getEquationContent_try mj d eq fmt = Inr r \<Longrightarrow> getEquationContent mj d s eq fmt = (r, s)"
  by (simp add: getEquationContent_def)

lemma extract_all_three:
  assumes "getEquationContent_try (mathjax env) d (Some a) (currentFormat s) = Inr (Some ca)"
    and "getEquationContent_try (mathjax env) d (Some b) (currentFormat s) = Inr (Some cb)"
    and "getEquationContent_try (mathjax env) d (Some c) (currentFormat s) = Inr (Some cc)"
  shows "extract_all env d s [a, b, c] = ([ca, cb, cc], s)"
  using assms try_result_bounds [OF assms(1)] try_result_bounds [OF assms(2)]
    try_result_bounds [OF assms(3)]
  by (simp add: getEquationContent_success truthy_def)

lemma copyToClipboard_works:
  "clipboard_works env format \<Longrightarrow> text \<noteq> [] \<Longrightarrow> length text \<le> 1000000 \<Longrightarrow>
   copyToClipboard env text format =
     Inr (if format = js ''mathml'' \<and> clipboard_write env = Some True
          then [(js ''text/html'', text), (js ''text/plain'', text)]
          else [(js ''text/plain'', text)])"
  by (auto simp: copyToClipboard_def clipboard_works_def)

lemma clearSelection_selection: "selectedEquations (st (clearSelection env w)) = []"
  by (simp add: clearSelection_def notifySelectionChange_def notifyBackground_def Let_def)

lemma clearSelection_clipboard: "clipboard (clearSelection env w) = clipboard w"
  by (simp add: clearSelection_def notifySelectionChange_def notifyBackground_def Let_def)

text \<open>
  Claim C7. With three containers selected, each of which yields a content, and a
  clipboard that can be written, \<^verbatim>\<open>copySelectedEquations\<close> writes one payload to the
  clipboard: the three contents in the order of the selection, joined by \<^verbatim>\<open>"\n\n"\<close>; and the
  selection is empty afterwards.
\<close>

theorem multi_copy_joins_three_contents:
  assumes "selectedEquations (st w) = [a, b, c]"
    and "getEquationContent_try (mathjax env) (doc w) (Some a) (currentFormat (st w)) = Inr (Some ca)"
    and "getEquationContent_try (mathjax env) (doc w) (Some b) (currentFormat (st w)) = Inr (Some cb)"
    and "getEquationContent_try (mathjax env) (doc w) (Some c) (currentFormat (st w)) = Inr (Some cc)"
    and "clipboard_works env (currentFormat (st w))"
  shows "clipboard (copySelectedEquations env w) =
           (if currentFormat (st w) = js ''mathml'' \<and> clipboard_write env = Some True
            then [(js ''text/html'', ca @ js ''\<newline>\<newline>'' @ cb @ js ''\<newline>\<newline>'' @ cc),
                  (js ''text/plain'', ca @ js ''\<newline>\<newline>'' @ cb @ js ''\<newline>\<newline>'' @ cc)]
            else [(js ''text/plain'', ca @ js ''\<newline>\<newline>'' @ cb @ js ''\<newline>\<newline>'' @ cc)]) \<and>
         selectedEquations (st (copySelectedEquations env w)) = []"
proof -
  let ?p = "ca @ js ''\<newline>\<newline>'' @ cb @ js ''\<newline>\<newline>'' @ cc"
  note b = try_result_bounds [OF assms(2)] try_result_bounds [OF assms(3)]
    try_result_bounds [OF assms(4)]
  have e: "extract_all env (doc w) (st w) [a, b, c] = ([ca, cb, cc], st w)"
    by (rule extract_all_three [OF assms(2-4)])
  have j: "join (js ''\<newline>\<newline>'') [ca, cb, cc] = ?p" by simp
  have n: "?p \<noteq> []" using b by simp
  have l: "length ?p \<le> 1000000" using b by (simp add: js_def)
  note cp = copyToClipboard_works [OF assms(5) n l]
  show ?thesis
    unfolding copySelectedEquations_def
    by (simp add: assms(1) e j cp Let_def clearSelection_selection clearSelection_clipboard
          notifyBackground_def del: join.simps extract_all.simps)
qed


lemma selection_try:
  "getEquationContent_try NoMathJax selection_page (Some 41) (js ''unicode'') = Inr (Some (js ''a+b''))"
  "getEquationContent_try NoMathJax selection_page (Some 42) (js ''unicode'') = Inr (Some (js ''c=d''))"
  "getEquationContent_try NoMathJax selection_page (Some 43) (js ''unicode'') = Inr (Some (js ''e<f''))"
  by (simp_all add: getEquationContent_try_def extracted_content_def extractFromDataAttribute_def
        validFormats_def trim_def is_space_def js_whitespace_def to_upper_ascii_def Let_def
        dom_eval selection_page_def)

theorem multi_copy_joins_three_contents_witness:
  "selectedEquations (st selection_world) = [41, 42, 43] \<and>
   getEquationContent_try (mathjax plain_browser) (doc selection_world) (Some 41)
     (currentFormat (st selection_world)) = Inr (Some (js ''a+b'')) \<and>
   getEquationContent_try (mathjax plain_browser) (doc selection_world) (Some 42)
     (currentFormat (st selection_world)) = Inr (Some (js ''c=d'')) \<and>
   getEquationContent_try (mathjax plain_browser) (doc selection_world) (Some 43)
     (currentFormat (st selection_world)) = Inr (Some (js ''e<f'')) \<and>
   clipboard_works plain_browser (currentFormat (st selection_world)) \<and>
   clipboard (copySelectedEquations plain_browser selection_world) =
     [(js ''text/plain'', js ''a+b\<newline>\<newline>c=d\<newline>\<newline>e<f'')] \<and>
   selectedEquations (st (copySelectedEquations plain_browser selection_world)) = []"
proof -
  have w: "selectedEquations (st selection_world) = [41, 42, 43]"
    "doc selection_world = selection_page"
    "currentFormat (st selection_world) = js ''unicode''"
    "mathjax plain_browser = NoMathJax"
    by (simp_all add: selection_world_def plain_browser_def)
  have c: "clipboard_works plain_browser (js ''unicode'')"
    by (simp add: clipboard_works_def plain_browser_def)
  have u: "js ''unicode'' \<noteq> js ''mathml''" by (simp add: js_def)
  show ?thesis
    using multi_copy_joins_three_contents [of selection_world 41 42 43 plain_browser
        "js ''a+b''" "js ''c=d''" "js ''e<f''"]
    by (simp add: w c u selection_try) (simp add: js_def)
qed

section \<open>Scanning twice\<close>

subsection \<open>Class tokens\<close>

lemma tokens_aux_member:
  "(\<forall>c \<in> set cur. \<not> is_ascii_ws c) \<Longrightarrow> t \<in> set (tokens_aux cur s) \<Longrightarrow> token_ok t"
proof (induction cur s rule: tokens_aux.induct)
  case (1 cur)
  then show ?case by (simp add: token_ok_def split: if_splits)
next
  case (2 cur c cs)
  show ?case
  proof (cases "is_ascii_ws c")
    case True
    with "2.prems"(2) have "t \<in> set (tokens_aux [] cs) \<or> (cur \<noteq> [] \<and> t = cur)"
      by (auto split: if_splits)
    then show ?thesis
    proof
      assume m: "t \<in> set (tokens_aux [] cs)"
      show ?thesis
      proof (cases "cur = []")
        case e: True
        from "2.IH"(1) [OF True e _ m] show ?thesis by simp
      next
        case e: False
        from "2.IH"(2) [OF True e _ m] show ?thesis by simp
      qed
    next
      assume "cur \<noteq> [] \<and> t = cur"
      with "2.prems"(1) show ?thesis by (simp add: token_ok_def)
    qed
  next
    case False
    with "2.prems"(2) have m: "t \<in> set (tokens_aux (cur @ [c]) cs)" by simp
    from "2.prems"(1) False have "\<forall>x \<in> set (cur @ [c]). \<not> is_ascii_ws x" by simp
    from "2.IH"(3) [OF False this m] show ?thesis .
  qed
qed

lemma tokens_aux_ok:
  "(\<forall>c \<in> set cur. \<not> is_ascii_ws c) \<Longrightarrow> \<forall>t \<in> set (tokens_aux cur s). token_ok t"
  using tokens_aux_member by blast

lemma tokens_aux_append:
  "\<forall>c \<in> set t. \<not> is_ascii_ws c \<Longrightarrow> tokens_aux cur (t @ rest) = tokens_aux (cur @ t) rest"
  by (induction t arbitrary: cur) auto

lemma tokens_aux_join_sep:
  "sep = [32] \<Longrightarrow> \<forall>t \<in> set ts. token_ok t \<Longrightarrow> tokens_aux [] (join sep ts) = ts"
proof (induction sep ts rule: join.induct)
  case (1 sep)
  then show ?case by simp
next
  case (2 sep x)
  then have "tokens_aux [] (x @ []) = tokens_aux ([] @ x) []"
    by (intro tokens_aux_append) (simp add: token_ok_def)
  with 2 show ?case by (simp add: token_ok_def)
next
  case (3 sep x y ys)
  from 3 have x: "x \<noteq> []" "\<forall>c \<in> set x. \<not> is_ascii_ws c" by (simp_all add: token_ok_def)
  have "tokens_aux [] (x @ 32 # join sep (y # ys)) = tokens_aux ([] @ x) (32 # join sep (y # ys))"
    by (rule tokens_aux_append [OF x(2)])
  also have "\<dots> = x # tokens_aux [] (join sep (y # ys))"
    using x(1) by (simp add: is_ascii_ws_def)
  also have "\<dots> = x # y # ys" using 3 by simp
  finally show ?case using 3(2) by simp
qed

lemma tokens_aux_join:
  "\<forall>t \<in> set ts. token_ok t \<Longrightarrow> tokens_aux [] (join (js '' '') ts) = ts"
  by (rule tokens_aux_join_sep) (simp_all add: js_def)

lemma set_ordered_set: "set (ordered_set seen ts) = set ts - set seen"
  by (induction seen ts rule: ordered_set.induct) auto

lemma set_tokens: "set (tokens v) = set (tokens_aux [] v)"
  by (simp add: tokens_def set_ordered_set)

lemma tokens_ok: "\<forall>t \<in> set (tokens v). token_ok t"
  using tokens_aux_ok [of "[]" v] by (simp add: set_tokens)

lemma set_tokens_join: "\<forall>t \<in> set ts. token_ok t \<Longrightarrow> set (tokens (join (js '' '') ts)) = set ts"
  by (simp add: set_tokens tokens_aux_join)

subsection \<open>Attributes\<close>

lemma lookup_update: "lookup (update k v al) k' = (if k' = k then Some v else lookup al k')"
  by (induction al) auto

lemma getAttribute_setAttribute:
  "getAttribute (setAttribute d i a v) j b =
     (if j = i \<and> b = a then Some v else getAttribute d j b)"
  by (simp add: getAttribute_def setAttribute_def lookup_update)

lemma tree_setAttribute: "tree (setAttribute d i a v) = tree d"
  by (simp add: setAttribute_def)

lemma classList_ok: "\<forall>t \<in> set (classList d i). token_ok t"
  using tokens_ok by (auto simp: classList_def split: option.splits)

lemma classList_set_class:
  "classList (setAttribute d i (js ''class'') v) j = (if j = i then tokens v else classList d j)"
  by (simp add: classList_def getAttribute_setAttribute)

lemma classList_contains_add:
  assumes "token_ok c'"
  shows "classList_contains (classList_add d i c') j c =
           (classList_contains d j c \<or> (j = i \<and> c = c'))"
proof -
  let ?ts = "if c' \<in> set (classList d i) then classList d i else classList d i @ [c']"
  have ok: "\<forall>t \<in> set ?ts. token_ok t" using classList_ok [of d i] assms by auto
  have "classList (classList_add d i c') j = (if j = i then tokens (join (js '' '') ?ts) else classList d j)"
    unfolding classList_add_def Let_def by (rule classList_set_class)
  then show ?thesis
    using set_tokens_join [OF ok] by (auto simp: classList_contains_def)
qed

lemma getAttribute_classList_add:
  "b \<noteq> js ''class'' \<Longrightarrow> getAttribute (classList_add d i c) j b = getAttribute d j b"
  by (simp add: classList_add_def getAttribute_setAttribute Let_def)

lemma tree_classList_add: "tree (classList_add d i c) = tree d"
  by (simp add: classList_add_def tree_setAttribute Let_def)

lemma classList_contains_setAttribute:
  "a \<noteq> js ''class'' \<Longrightarrow>
   classList_contains (setAttribute d i a v) j c = classList_contains d j c"
  by (simp add: classList_contains_def classList_def getAttribute_setAttribute)

subsection \<open>What a scan changes\<close>

lemma grows_refl: "grows d d"
  by (simp add: grows_def)

lemma grows_trans: "grows d d' \<Longrightarrow> grows d' d'' \<Longrightarrow> grows d d''"
  by (simp add: grows_def)

lemma scan_attribute_names:
  "processed_attr \<noteq> js ''class''" "js ''tabindex'' \<noteq> js ''class''" "js ''role'' \<noteq> js ''class''"
  "js ''aria-label'' \<noteq> js ''class''"
  "processed_attr \<in> set scan_attributes" "js ''tabindex'' \<in> set scan_attributes"
  "js ''role'' \<in> set scan_attributes" "js ''aria-label'' \<in> set scan_attributes"
  "js ''class'' \<in> set scan_attributes"
  by (simp_all add: scan_attributes_def processed_attr_def js_def)

lemma grows_setAttribute:
  "a \<in> set scan_attributes \<Longrightarrow> a \<noteq> js ''class'' \<Longrightarrow> grows d (setAttribute d i a v)"
  by (auto simp: grows_def tree_setAttribute hasAttribute_def getAttribute_setAttribute
        classList_contains_setAttribute)

lemma token_ok_copy_element: "token_ok (js ''math-copy-element'')"
  by (simp add: token_ok_def is_ascii_ws_def js_def)

lemma not_scan_attribute: "a \<notin> set scan_attributes \<Longrightarrow> a \<noteq> js ''class''"
  using scan_attribute_names(9) by auto

lemma grows_classList_add: "grows d (classList_add d i (js ''math-copy-element''))"
proof -
  let ?d = "classList_add d i (js ''math-copy-element'')"
  have 1: "tree ?d = tree d" by (rule tree_classList_add)
  have 2: "hasAttribute ?d j processed_attr = hasAttribute d j processed_attr" for j
    by (simp add: hasAttribute_def getAttribute_classList_add scan_attribute_names(1))
  have 3: "c \<noteq> js ''math-copy-element'' \<Longrightarrow> classList_contains ?d j c = classList_contains d j c" for j c
    by (simp add: classList_contains_add [OF token_ok_copy_element])
  have 4: "a \<notin> set scan_attributes \<Longrightarrow> getAttribute ?d j a = getAttribute d j a" for j a
    by (simp add: getAttribute_classList_add not_scan_attribute)
  show ?thesis unfolding grows_def using 1 2 3 4 by blast
qed

lemma grows_same_attributes:
  "tree d' = tree d \<Longrightarrow> (\<forall>j. attributes (objs d' j) = attributes (objs d j)) \<Longrightarrow> grows d d'"
  by (simp add: grows_def hasAttribute_def getAttribute_def classList_contains_def classList_def)

lemma grows_make_copyable: "grows (doc w) (doc (make_copyable w e))"
proof -
  let ?d1 = "classList_add (doc w) e (js ''math-copy-element'')"
  let ?d2 = "setAttribute ?d1 e (js ''tabindex'') (js ''0'')"
  let ?d3 = "setAttribute ?d2 e (js ''role'') (js ''button'')"
  let ?d4 = "setAttribute ?d3 e (js ''aria-label'') (js ''Mathematical equation - click to copy'')"
  have 1: "grows (doc w) ?d1" by (rule grows_classList_add)
  have 2: "grows ?d1 ?d2"
    by (rule grows_setAttribute [OF scan_attribute_names(6) scan_attribute_names(2)])
  have 3: "grows ?d2 ?d3"
    by (rule grows_setAttribute [OF scan_attribute_names(7) scan_attribute_names(3)])
  have 4: "grows ?d3 ?d4"
    by (rule grows_setAttribute [OF scan_attribute_names(8) scan_attribute_names(4)])
  have 5: "grows ?d4 (doc (make_copyable w e))"
    by (rule grows_same_attributes) (simp_all add: make_copyable_def setupEquationListeners_def Let_def)
  from 1 2 3 4 5 show ?thesis by (blast intro: grows_trans)
qed

lemma grows_setupEquation: "grows (doc w) (doc (setupEquation w e))"
  by (auto simp: setupEquation_def grows_refl grows_make_copyable split: option.splits)

lemma doc_set_katexHtmlElement: "grows (doc w) (doc (set_katexHtmlElement w c e))"
  by (rule grows_same_attributes) (simp_all add: set_katexHtmlElement_def)

subsection \<open>What stays the same while the page grows\<close>

lemma matches_simple_stable:
  "grows d d' \<Longrightarrow> stable_simple s \<Longrightarrow> matches_simple d' n s = matches_simple d n s"
  by (cases s) (auto simp: grows_def hasAttribute_def)

lemma matches_compound_stable:
  "grows d d' \<Longrightarrow> \<forall>s \<in> set c. stable_simple s \<Longrightarrow>
   matches_compound d' n c = matches_compound d n c"
  by (induction c) (simp_all add: matches_compound_def matches_simple_stable)

lemma exists_above_stable:
  "grows d d' \<Longrightarrow> \<forall>c \<in> set cs. \<forall>s \<in> set c. stable_simple s \<Longrightarrow>
   exists_above d' cs ns = exists_above d cs ns"
  by (induction d' cs ns rule: exists_above.induct) (simp_all add: matches_compound_stable)

lemma matches_complex_stable:
  assumes "grows d d'" and "\<forall>c \<in> set cx. \<forall>s \<in> set c. stable_simple s"
  shows "matches_complex d' ch cx = matches_complex d ch cx"
proof (cases "rev cx")
  case Nil
  then show ?thesis by (simp add: matches_complex_def)
next
  case (Cons c cs)
  then have "set (c # cs) = set cx" by (metis set_rev)
  with assms(2) have s: "\<forall>s \<in> set c. stable_simple s" "\<forall>c \<in> set cs. \<forall>s \<in> set c. stable_simple s"
    by auto
  show ?thesis
    by (cases ch)
       (simp_all add: matches_complex_def Cons matches_compound_stable [OF assms(1) s(1)]
          exists_above_stable [OF assms(1) s(2)])
qed

lemma matches_stable:
  "grows d d' \<Longrightarrow> stable_selector sel \<Longrightarrow> matches d' sel ch = matches d sel ch"
  by (induction sel) (simp_all add: matches_def stable_selector_def matches_complex_stable)

lemma closest_in_stable:
  "grows d d' \<Longrightarrow> stable_selector sel \<Longrightarrow> closest_in d' sel ch = closest_in d sel ch"
  by (induction ch) (simp_all add: matches_stable)

lemma closest_stable:
  "grows d d' \<Longrightarrow> stable_selector sel \<Longrightarrow> closest d' i sel = closest d i sel"
  by (simp add: closest_def ancestors_or_self_def closest_in_stable grows_def)

lemma stable_scan_selectors:
  "stable_selector (sel_class ''katex'')" "stable_selector mathjax_selector"
  "stable_selector (sel_tag ''math'')"
  by (simp_all add: stable_selector_def sel_class_def sel_tag_def mathjax_selector_def js_def)

lemma class_names:
  "js ''katex-html'' \<noteq> js ''math-copy-element''" "js ''katex'' \<noteq> js ''math-copy-element''"
  by (simp_all add: js_def)

lemma findMathContainer_stable:
  assumes "grows d d'"
  shows "findMathContainer d' e = findMathContainer d e"
proof -
  from assms have c: "classList_contains d' e (js ''katex-html'') = classList_contains d e (js ''katex-html'')"
    "classList_contains d' e (js ''katex'') = classList_contains d e (js ''katex'')"
    by (simp_all add: grows_def class_names)
  from assms have t: "tagName_of d' e = tagName_of d e"
    by (simp add: tagName_of_def find_element_def grows_def)
  show ?thesis
    unfolding findMathContainer_def c t
    by (simp only: closest_stable [OF assms stable_scan_selectors(1)]
          closest_stable [OF assms stable_scan_selectors(2)]
          closest_stable [OF assms stable_scan_selectors(3)])
qed

lemma settled_stable:
  assumes "grows d d'" and "settled d e"
  shows "settled d' e"
proof -
  from assms(1) have m: "hasAttribute d i processed_attr \<Longrightarrow> hasAttribute d' i processed_attr" for i
    by (simp add: grows_def)
  from assms(2) m show ?thesis
    unfolding settled_def findMathContainer_stable [OF assms(1)]
    by (auto split: option.splits)
qed

subsection \<open>One element of a batch\<close>

lemma katex_html_container:
  "classList_contains d e (js ''katex-html'') \<Longrightarrow>
   findMathContainer d e = closest d e (sel_class ''katex'')"
  by (simp add: findMathContainer_def)

lemma grows_mark: "grows d (setAttribute d i processed_attr v)"
  by (rule grows_setAttribute [OF scan_attribute_names(5) scan_attribute_names(1)])

lemma marked_after: "hasAttribute (setAttribute d i processed_attr v) i processed_attr"
  by (simp add: hasAttribute_def getAttribute_setAttribute)

lemma marked_mono: "grows d d' \<Longrightarrow> hasAttribute d i processed_attr \<Longrightarrow> hasAttribute d' i processed_attr"
  by (simp add: grows_def)

text \<open>The two branches of \<open>process_element\<close> that change the page.\<close>

lemma process_katex:
  assumes "classList_contains (doc w) e (js ''katex-html'')"
    and "\<not> hasAttribute (doc w) e processed_attr"
    and "closest (doc w) e (sel_class ''katex'') = Some k"
    and "\<not> hasAttribute (doc w) k processed_attr"
  shows "doc (process_element w e) =
           setAttribute (setAttribute (doc (setupEquation (set_katexHtmlElement w k e) k)) k
             processed_attr (js ''true'')) e processed_attr (js ''true'')"
  using assms by (simp add: process_element_def Let_def)

lemma process_other:
  assumes "\<not> classList_contains (doc w) e (js ''katex-html'')"
    and "\<not> hasAttribute (doc w) e processed_attr"
    and "findMathContainer (doc w) e = Some c"
    and "\<not> hasAttribute (doc w) c processed_attr"
  shows "doc (process_element w e) =
           setAttribute (doc (setupEquation w c)) c processed_attr (js ''true'')"
  using assms by (simp add: process_element_def Let_def)

lemma process_settled: "settled (doc w) e \<Longrightarrow> process_element w e = w"
  by (auto simp: settled_def process_element_def katex_html_container split: option.splits)

lemma process_cases:
  obtains (settled) "settled (doc w) e"
  | (katex) k where "classList_contains (doc w) e (js ''katex-html'')"
      "\<not> hasAttribute (doc w) e processed_attr"
      "closest (doc w) e (sel_class ''katex'') = Some k"
      "\<not> hasAttribute (doc w) k processed_attr"
  | (other) c where "\<not> classList_contains (doc w) e (js ''katex-html'')"
      "\<not> hasAttribute (doc w) e processed_attr"
      "findMathContainer (doc w) e = Some c"
      "\<not> hasAttribute (doc w) c processed_attr"
proof (cases "settled (doc w) e")
  case True
  then show ?thesis by (rule settled)
next
  case False
  then have n: "\<not> hasAttribute (doc w) e processed_attr" by (simp add: settled_def)
  from False obtain c where c: "findMathContainer (doc w) e = Some c"
    "\<not> hasAttribute (doc w) c processed_attr"
    by (auto simp: settled_def split: option.splits)
  show ?thesis
  proof (cases "classList_contains (doc w) e (js ''katex-html'')")
    case True
    with c have "closest (doc w) e (sel_class ''katex'') = Some c"
      by (simp add: katex_html_container)
    from katex [OF True n this c(2)] show ?thesis .
  next
    case False
    from other [OF False n c] show ?thesis .
  qed
qed

lemma grows_process: "grows (doc w) (doc (process_element w e))"
proof (cases w e rule: process_cases)
  case settled
  then show ?thesis by (simp add: process_settled grows_refl)
next
  case (katex k)
  let ?w1 = "set_katexHtmlElement w k e"
  have "grows (doc w) (doc ?w1)" by (rule doc_set_katexHtmlElement)
  moreover have "grows (doc ?w1) (doc (setupEquation ?w1 k))" by (rule grows_setupEquation)
  ultimately have "grows (doc w) (doc (setupEquation ?w1 k))" by (rule grows_trans)
  then show ?thesis
    unfolding process_katex [OF katex]
    by (blast intro: grows_trans grows_mark)
next
  case (other c)
  have "grows (doc w) (doc (setupEquation w c))" by (rule grows_setupEquation)
  then show ?thesis
    unfolding process_other [OF other]
    by (blast intro: grows_trans grows_mark)
qed

lemma settled_after_process: "settled (doc (process_element w e)) e"
proof (cases w e rule: process_cases)
  case settled
  then show ?thesis by (simp add: process_settled)
next
  case (katex k)
  show ?thesis
    unfolding process_katex [OF katex] settled_def
    by (simp add: marked_after)
next
  case (other c)
  have "findMathContainer (doc (process_element w e)) e = Some c"
    using findMathContainer_stable [OF grows_process, of w e e] other(3) by simp
  moreover have "hasAttribute (doc (process_element w e)) c processed_attr"
    unfolding process_other [OF other] by (rule marked_after)
  ultimately show ?thesis by (simp add: settled_def)
qed

subsection \<open>Batches\<close>

lemma grows_foldl: "grows (doc w) (doc (foldl process_element w es))"
proof (induction es arbitrary: w)
  case Nil
  then show ?case by (simp add: grows_refl)
next
  case (Cons e es)
  from grows_process [of w e] Cons [of "process_element w e"] show ?case
    by (simp add: grows_trans)
qed

lemma settled_foldl: "e \<in> set es \<Longrightarrow> settled (doc (foldl process_element w es)) e"
proof (induction es arbitrary: w)
  case Nil
  then show ?case by simp
next
  case (Cons x es)
  show ?case
  proof (cases "e = x")
    case True
    have "settled (doc (process_element w x)) x" by (rule settled_after_process)
    from settled_stable [OF grows_foldl this] True show ?thesis by simp
  next
    case False
    with Cons.prems have "e \<in> set es" by simp
    from Cons.IH [OF this] show ?thesis by simp
  qed
qed

lemma foldl_settled: "\<forall>e \<in> set es. settled (doc w) e \<Longrightarrow> foldl process_element w es = w"
  by (induction es) (simp_all add: process_settled)

subsection \<open>One call of \<open>processBatch\<close>\<close>

lemma pending_elements_simps:
  "pending_elements [] = {}"
  "pending_elements ((els, i) # ts) = set (drop i els) \<union> pending_elements ts"
  "pending_elements (ts @ ts') = pending_elements ts \<union> pending_elements ts'"
  by (auto simp: pending_elements_def)

lemma grows_processBatch: "processBatch w els i = (w', t) \<Longrightarrow> grows (doc w) (doc w')"
  by (auto simp: processBatch_def Let_def grows_refl grows_foldl split: if_splits)

lemma processBatch_covers:
  assumes "processBatch w els i = (w', t)" and "e \<in> set (drop i els)"
  shows "settled (doc w') e \<or> e \<in> pending_elements t"
proof -
  from assms(2) have i: "i < length els" by (cases "i < length els") auto
  let ?end = "min (i + BATCH_SIZE) (length els)"
  let ?batch = "take (?end - i) (drop i els)"
  from i assms(1) have w': "w' = foldl process_element w ?batch"
    and t: "t = (if ?end < length els then [(els, ?end)] else [])"
    by (auto simp: processBatch_def Let_def)
  have "drop i els = ?batch @ drop (?end - i) (drop i els)"
    by (simp only: append_take_drop_id)
  with assms(2) have "e \<in> set ?batch \<or> e \<in> set (drop (?end - i) (drop i els))"
    by (metis Un_iff set_append)
  then show ?thesis
  proof
    assume "e \<in> set ?batch"
    then show ?thesis unfolding w' by (intro disjI1 settled_foldl)
  next
    assume r: "e \<in> set (drop (?end - i) (drop i els))"
    have "drop (?end - i) (drop i els) = drop ?end els" using i by simp
    with r have r': "e \<in> set (drop ?end els)" by simp
    then have "?end < length els" by (cases "?end < length els") auto
    with r' show ?thesis
      by (auto simp: t pending_elements_simps min_def split: if_splits)
  qed
qed

lemma processBatch_settled:
  assumes "\<forall>e \<in> set els. settled (doc w) e"
  shows "\<exists>t. processBatch w els i = (w, t) \<and> tasks_settled (doc w) t"
proof -
  have "foldl process_element w (take n (drop i els)) = w" for n
    using assms by (intro foldl_settled) (auto dest: in_set_takeD in_set_dropD)
  then show ?thesis
    using assms by (auto simp: processBatch_def Let_def tasks_settled_def)
qed

subsection \<open>Queries while the page grows\<close>

lemma matches_not_processed:
  "matches d (not_processed c) ch =
     (case ch of [] \<Rightarrow> False
      | n # ns \<Rightarrow> matches_compound d n c \<and> \<not> hasAttribute d (node_id n) processed_attr)"
  by (cases ch) (auto simp: matches_def not_processed_def matches_complex_def matches_compound_def)

lemma scan_selector_form:
  "sel \<in> set scan_selectors \<Longrightarrow> \<exists>c. sel = not_processed c \<and> (\<forall>s \<in> set c. stable_simple s)"
  by (auto simp: scan_selectors_def otherSelectors_def scan_attributes_def processed_attr_def js_def)

lemma query_shrinks:
  assumes "grows d d'" and "sel \<in> set scan_selectors"
    and "e \<in> set (document_querySelectorAll d' sel)"
  shows "e \<in> set (document_querySelectorAll d sel)"
proof -
  from scan_selector_form [OF assms(2)] obtain c where
    c: "sel = not_processed c" "\<forall>s \<in> set c. stable_simple s" by blast
  from assms(1) have t: "tree d' = tree d" by (simp add: grows_def)
  have "matches d sel ch" if "matches d' sel ch" for ch
    using that assms(1) matches_compound_stable [OF assms(1) c(2)]
    by (auto simp: c(1) matches_not_processed grows_def split: list.splits)
  with assms(3) show ?thesis
    by (auto simp: document_querySelectorAll_def select_from_def ancestors_or_self_def t)
qed

subsection \<open>The elements found are settled in the end\<close>

lemma covered_step:
  assumes "covered sels d ts" and "grows d d'" and "set sels \<subseteq> set scan_selectors"
    and "\<forall>e \<in> pending_elements ts. settled d' e \<or> e \<in> pending_elements ts'"
  shows "covered sels d' ts'"
  unfolding covered_def
proof (intro ballI)
  fix sel e
  assume s: "sel \<in> set sels" and e: "e \<in> set (document_querySelectorAll d' sel)"
  from s assms(3) have "sel \<in> set scan_selectors" by auto
  from query_shrinks [OF assms(2) this e] assms(1) s
  have "settled d e \<or> e \<in> pending_elements ts" by (auto simp: covered_def)
  then show "settled d' e \<or> e \<in> pending_elements ts'"
    using settled_stable [OF assms(2)] assms(4) by blast
qed

lemma scan_selector_covered:
  assumes "scan_selector (w, ts) sel = (w', ts')"
    and "covered sels (doc w) ts" and "set sels \<subseteq> set scan_selectors"
    and "sel \<in> set scan_selectors"
  shows "covered (sels @ [sel]) (doc w') ts' \<and> grows (doc w) (doc w')"
proof (cases "document_querySelectorAll (doc w) sel = []")
  case True
  with assms(1) have eq: "w' = w" "ts' = ts" by (simp_all add: scan_selector_def)
  from assms(2) True show ?thesis by (auto simp: eq covered_def grows_refl)
next
  case False
  let ?els = "document_querySelectorAll (doc w) sel"
  obtain w1 t where pb: "processBatch w ?els 0 = (w1, t)" by (cases "processBatch w ?els 0")
  with False assms(1) have eq: "w' = w1" "ts' = ts @ t" by (auto simp: scan_selector_def Let_def)
  have g: "grows (doc w) (doc w')" unfolding eq by (rule grows_processBatch [OF pb])
  have old: "covered sels (doc w') ts'"
    by (rule covered_step [OF assms(2) g assms(3)]) (simp add: eq pending_elements_simps)
  have new: "settled (doc w') e \<or> e \<in> pending_elements ts'"
    if "e \<in> set (document_querySelectorAll (doc w') sel)" for e
  proof -
    from query_shrinks [OF g assms(4) that] have "e \<in> set (drop 0 ?els)" by simp
    from processBatch_covers [OF pb this] show ?thesis by (auto simp: eq pending_elements_simps)
  qed
  from old new g show ?thesis by (auto simp: covered_def)
qed

lemma foldl_scan_covered:
  assumes "foldl scan_selector (w, ts) todo = (w', ts')"
    and "covered sels (doc w) ts" and "set sels \<subseteq> set scan_selectors"
    and "set todo \<subseteq> set scan_selectors"
  shows "covered (sels @ todo) (doc w') ts'"
  using assms
proof (induction todo arbitrary: w ts sels)
  case Nil
  then show ?case by simp
next
  case (Cons sel todo)
  obtain w1 ts1 where s: "scan_selector (w, ts) sel = (w1, ts1)"
    by (cases "scan_selector (w, ts) sel")
  from Cons.prems(4) have m: "sel \<in> set scan_selectors" "set todo \<subseteq> set scan_selectors" by auto
  from scan_selector_covered [OF s Cons.prems(2,3) m(1)]
  have c: "covered (sels @ [sel]) (doc w1) ts1" by simp
  from Cons.prems(1) s have f: "foldl scan_selector (w1, ts1) todo = (w', ts')" by simp
  from Cons.prems(3) m(1) have "set (sels @ [sel]) \<subseteq> set scan_selectors" by simp
  from Cons.IH [OF f c this m(2)] show ?case by simp
qed

lemma processExisting_covered:
  "processExistingEquations w = (w', ts) \<Longrightarrow> covered scan_selectors (doc w') ts"
  using foldl_scan_covered [of w "[]" scan_selectors w' ts "[]"]
  by (simp add: processExistingEquations_def scan_selectors_def covered_def)

lemma run_timers_covered:
  "covered scan_selectors (doc w) ts \<Longrightarrow> covered scan_selectors (doc (run_timers w ts)) []"
proof (induction w ts rule: run_timers.induct)
  case (1 w)
  then show ?case by simp
next
  case (2 w els i ts)
  obtain w1 t where pb: "processBatch w els i = (w1, t)" by (cases "processBatch w els i")
  have "covered scan_selectors (doc w1) (ts @ t)"
  proof (rule covered_step [OF "2.prems" grows_processBatch [OF pb]])
    show "set scan_selectors \<subseteq> set scan_selectors" by simp
    show "\<forall>e \<in> pending_elements ((els, i) # ts). settled (doc w1) e \<or> e \<in> pending_elements (ts @ t)"
      using processBatch_covers [OF pb] by (auto simp: pending_elements_simps)
  qed
  from "2.IH" [OF pb [symmetric] this] show ?case by (simp add: pb)
qed

lemma scan_settles:
  "sel \<in> set scan_selectors \<Longrightarrow> e \<in> set (document_querySelectorAll (doc (scan w)) sel) \<Longrightarrow>
   settled (doc (scan w)) e"
proof -
  assume a: "sel \<in> set scan_selectors" "e \<in> set (document_querySelectorAll (doc (scan w)) sel)"
  obtain w1 ts where p: "processExistingEquations w = (w1, ts)"
    by (cases "processExistingEquations w")
  from run_timers_covered [OF processExisting_covered [OF p]] a
  show ?thesis by (auto simp: scan_def p covered_def pending_elements_simps)
qed

subsection \<open>A scan of a settled page\<close>

lemma tasks_settled_append:
  "tasks_settled d (ts @ t) = (tasks_settled d ts \<and> tasks_settled d t)"
  by (auto simp: tasks_settled_def)

lemma scan_selector_settled:
  assumes "\<forall>e \<in> set (document_querySelectorAll (doc w) sel). settled (doc w) e"
    and "tasks_settled (doc w) ts"
  shows "\<exists>ts'. scan_selector (w, ts) sel = (w, ts') \<and> tasks_settled (doc w) ts'"
proof -
  from processBatch_settled [OF assms(1), of 0] obtain t where
    "processBatch w (document_querySelectorAll (doc w) sel) 0 = (w, t)" "tasks_settled (doc w) t"
    by blast
  with assms(2) show ?thesis
    by (auto simp: scan_selector_def Let_def tasks_settled_append)
qed

lemma foldl_scan_settled:
  assumes "\<forall>sel \<in> set sels. \<forall>e \<in> set (document_querySelectorAll (doc w) sel). settled (doc w) e"
    and "tasks_settled (doc w) ts"
  shows "\<exists>ts'. foldl scan_selector (w, ts) sels = (w, ts') \<and> tasks_settled (doc w) ts'"
  using assms
proof (induction sels arbitrary: ts)
  case Nil
  then show ?case by simp
next
  case (Cons sel sels)
  from Cons.prems(1) have h: "\<forall>e \<in> set (document_querySelectorAll (doc w) sel). settled (doc w) e"
    by simp
  from scan_selector_settled [OF h Cons.prems(2)] obtain ts1 where
    s: "scan_selector (w, ts) sel = (w, ts1)" "tasks_settled (doc w) ts1" by blast
  from Cons.prems(1) have "\<forall>sel \<in> set sels. \<forall>e \<in> set (document_querySelectorAll (doc w) sel). settled (doc w) e"
    by simp
  from Cons.IH [OF this s(2)] s(1) show ?case by simp
qed

lemma run_timers_settled: "tasks_settled (doc w) ts \<Longrightarrow> run_timers w ts = w"
proof (induction w ts rule: run_timers.induct)
  case (1 w)
  then show ?case by simp
next
  case (2 w els i ts)
  from "2.prems" have h: "\<forall>e \<in> set els. settled (doc w) e" "tasks_settled (doc w) ts"
    by (auto simp: tasks_settled_def)
  from processBatch_settled [OF h(1), of i] obtain t where
    pb: "processBatch w els i = (w, t)" "tasks_settled (doc w) t" by blast
  from h(2) pb(2) have "tasks_settled (doc w) (ts @ t)" by (simp add: tasks_settled_append)
  from "2.IH" [OF pb(1) [symmetric] this] show ?case by (simp add: pb(1))
qed

lemma scan_settled_page:
  assumes "\<forall>sel \<in> set scan_selectors. \<forall>e \<in> set (document_querySelectorAll (doc w) sel). settled (doc w) e"
  shows "scan w = w"
proof -
  have "tasks_settled (doc w) []" by (simp add: tasks_settled_def)
  from foldl_scan_settled [OF assms this] obtain ts where
    "processExistingEquations w = (w, ts)" "tasks_settled (doc w) ts"
    by (auto simp: processExistingEquations_def scan_selectors_def)
  then show ?thesis by (simp add: scan_def run_timers_settled)
qed

lemma scan_twice: "scan (scan w) = scan w"
  by (rule scan_settled_page) (blast intro: scan_settles)

subsection \<open>The scan of the KaTeX page\<close>

lemmas scan_eval = processExistingEquations_def scan_selector_def processBatch_def BATCH_SIZE_def
  otherSelectors_def not_processed_def processed_attr_def process_element_def setupEquation_def
  already_set_up_def parentElement_def make_copyable_def setupEquationListeners_def
  set_katexHtmlElement_def findMathContainer_def mathjax_selector_def classList_add_def
  setAttribute_def

lemma katex_scan:
  "attributes (objs (doc (scan katex_world)) 20) =
     [(js ''class'', js ''katex math-copy-element''), (js ''tabindex'', js ''0''),
      (js ''role'', js ''button''), (js ''aria-label'', js ''Mathematical equation - click to copy''),
      (js ''data-katex-processed'', js ''true'')]"
  "listeners (objs (doc (scan katex_world)) 20) = 1"
  "attributes (objs (doc (scan katex_world)) 21) =
     [(js ''class'', js ''katex-html''), (js ''data-katex-processed'', js ''true'')]"
  "listeners (objs (doc (scan katex_world)) 21) = 0"
  by (simp_all add: scan_def scan_eval dom_eval katex_world_def katex_page_def Let_def)

lemma katex_scan_settled: "settled (doc (scan katex_world)) 21"
  by (simp add: settled_def hasAttribute_def getAttribute_def katex_scan processed_attr_def)

text \<open>
  Claim C8. A scan that has run to its end (with its batch timers) leaves nothing for a
  second scan: the second scan changes neither the page nor the state, so it sets up and
  marks no container. And \<^verbatim>\<open>processBatch\<close> passes over an element that is marked
  \<^verbatim>\<open>data-katex-processed\<close>, or whose container is marked, without any change.
\<close>

theorem scan_idempotent:
  "scan (scan w) = scan w \<and> (settled (doc w) e \<longrightarrow> process_element w e = w)"
  by (simp add: scan_twice process_settled)

theorem scan_idempotent_witness:
  "settled (doc (scan katex_world)) 21 \<and>
   process_element (scan katex_world) 21 = scan katex_world \<and>
   scan (scan (scan katex_world)) = scan (scan katex_world) \<and>
   listeners (objs (doc (scan katex_world)) 20) = 1"
  using scan_idempotent [of "scan katex_world" 21]
  by (simp add: katex_scan_settled katex_scan)

end
